theory Spec2Isabelle
  imports Main "HOL-Library.Sublist"
begin

section \<open>Port allocator (src/internal/runtime/port.go, first part)\<close>

text \<open>
  \<^verbatim>\<open>PortAllocator\<close> keeps the set of leased ports (the Go \<^verbatim>\<open>map[int]bool\<close>, whose
  entries are only ever \<^verbatim>\<open>true\<close>) and the bounds of its range. Go's \<^verbatim>\<open>int\<close> is
  modelled by \<open>int\<close>, with the 64-bit wrap-around written out (\<open>wrap64\<close>) where the
  constructor adds; the loop counter \<^verbatim>\<open>p++\<close> cannot wrap as long as \<^verbatim>\<open>maxPort\<close> is
  below the largest 64-bit integer, which the theorem about the loop assumes.
\<close>

record PortAllocator =
  allocated :: "int set"
  minPort :: int
  maxPort :: int

datatype port_error = NoAvailablePorts int int

definition wrap64 :: "int \<Rightarrow> int" where
  "wrap64 x = (x + 9223372036854775808) mod 18446744073709551616 - 9223372036854775808"

definition NewPortAllocator :: "int \<Rightarrow> int \<Rightarrow> PortAllocator" where
  "NewPortAllocator lo hi =
     (let lo' = (if lo \<le> 0 then 10881 else lo);
          hi' = (if hi \<le> lo' then wrap64 (lo' + 1000) else hi)
      in \<lparr>allocated = {}, minPort = lo', maxPort = hi'\<rparr>)"

definition GetGlobalPortAllocator :: PortAllocator where
  "GetGlobalPortAllocator = NewPortAllocator 10881 11881"

text \<open>
  \<^verbatim>\<open>isPortAvailable\<close> binds a TCP listener on 127.0.0.1 and closes it again. The
  outcome of that bind belongs to the host, so the model takes it as the function
  \<open>listen_ok\<close> from a port to the success of the probe.
\<close>

definition isPortAvailable :: "(int \<Rightarrow> bool) \<Rightarrow> int \<Rightarrow> bool" where
  "isPortAvailable listen_ok port = listen_ok port"

text \<open>The \<^verbatim>\<open>for p := pa.minPort; p <= pa.maxPort; p++\<close> loop of \<^verbatim>\<open>GetFreePort\<close>.\<close>

function GetFreePort_from ::
  "(int \<Rightarrow> bool) \<Rightarrow> PortAllocator \<Rightarrow> int \<Rightarrow> (port_error + int) \<times> PortAllocator" where
  "GetFreePort_from listen_ok pa p =
     (if p \<le> maxPort pa then
        (if p \<in> allocated pa then GetFreePort_from listen_ok pa (p + 1)
         else if isPortAvailable listen_ok p
           then (Inr p, pa\<lparr>allocated := insert p (allocated pa)\<rparr>)
           else GetFreePort_from listen_ok pa (p + 1))
      else (Inl (NoAvailablePorts (minPort pa) (maxPort pa)), pa))"
  by pat_completeness auto
termination
  by (relation "measure (\<lambda>(listen_ok, pa, p). nat (maxPort pa + 1 - p))") auto

definition GetFreePort ::
  "(int \<Rightarrow> bool) \<Rightarrow> PortAllocator \<Rightarrow> (port_error + int) \<times> PortAllocator" where
  "GetFreePort listen_ok pa = GetFreePort_from listen_ok pa (minPort pa)"

definition ReleasePort :: "PortAllocator \<Rightarrow> int \<Rightarrow> PortAllocator" where
  "ReleasePort pa port =
     (if port \<in> allocated pa then pa\<lparr>allocated := allocated pa - {port}\<rparr> else pa)"

definition MarkPortUsed :: "PortAllocator \<Rightarrow> int \<Rightarrow> PortAllocator" where
  "MarkPortUsed pa port =
     (if port \<le> 0 then pa else pa\<lparr>allocated := insert port (allocated pa)\<rparr>)"

text \<open>A port can be leased: it is not in the cache and the probe binds it.\<close>

definition leasable :: "(int \<Rightarrow> bool) \<Rightarrow> PortAllocator \<Rightarrow> int \<Rightarrow> bool" where
  "leasable listen_ok pa p \<longleftrightarrow> p \<notin> allocated pa \<and> listen_ok p"

section \<open>Instances and model resolution (src/unnamed/part_010)\<close>

text \<open>
  \<^verbatim>\<open>runtime.Instance\<close> as the handlers and the manager read it. Timestamps are seconds
  since the epoch; \<^verbatim>\<open>Metadata\<close> is the string-to-string map, kept as an association
  list; \<^verbatim>\<open>State\<close> is Go's string-typed \<^verbatim>\<open>InstanceState\<close>.
\<close>

record Instance =
  inst_ID :: string
  inst_RuntimeName :: string
  inst_CreatedAt :: int
  inst_StartedAt :: "int option"
  inst_ModelID :: string
  inst_Alias :: string
  inst_ModelVersion :: string
  inst_State :: string
  inst_Port :: int
  inst_Endpoint :: string
  inst_Metadata :: "(string \<times> string) list"
  inst_Error :: string

definition StateCreated :: string where "StateCreated = ''created''"
definition StateRunning :: string where "StateRunning = ''running''"

datatype find_error = ListFailed string | NoRunningInstance string

text \<open>\<^verbatim>\<open>strings.HasPrefix(s, prefix)\<close>.\<close>

definition HasPrefix :: "string \<Rightarrow> string \<Rightarrow> bool" where
  "HasPrefix s p = prefix p s"

text \<open>
  The name an instance is matched under: \<^verbatim>\<open>alias := inst.Alias; if alias == "" { alias =
  inst.ModelID }\<close>.
\<close>

definition alias_or_model :: "Instance \<Rightarrow> string" where
  "alias_or_model inst = (if inst_Alias inst = [] then inst_ModelID inst else inst_Alias inst)"

text \<open>
  The two loops of \<^verbatim>\<open>FindInstanceByModel\<close>. \<^verbatim>\<open>strings.ToLower\<close> is Unicode aware, so the
  model takes it as the parameter \<open>ToLower\<close>; \<open>ascii_ToLower\<close> below is its restriction to
  ASCII, used to run the model.
\<close>

fun exact_pass :: "(string \<Rightarrow> string) \<Rightarrow> string \<Rightarrow> Instance list \<Rightarrow> Instance option" where
  "exact_pass ToLower modelNameLower [] = None"
| "exact_pass ToLower modelNameLower (inst # rest) =
     (if inst_State inst \<noteq> ''running'' then exact_pass ToLower modelNameLower rest
      else if ToLower (alias_or_model inst) = modelNameLower then Some inst
      else exact_pass ToLower modelNameLower rest)"

fun prefix_pass :: "(string \<Rightarrow> string) \<Rightarrow> string \<Rightarrow> Instance list \<Rightarrow> Instance option" where
  "prefix_pass ToLower modelNameLower [] = None"
| "prefix_pass ToLower modelNameLower (inst # rest) =
     (if inst_State inst \<noteq> ''running'' then prefix_pass ToLower modelNameLower rest
      else (let aliasLower = ToLower (alias_or_model inst)
            in if HasPrefix aliasLower modelNameLower \<or> HasPrefix modelNameLower aliasLower
               then Some inst
               else prefix_pass ToLower modelNameLower rest))"

text \<open>
  \<^verbatim>\<open>FindInstanceByModel\<close>; \<open>listing\<close> is what \<^verbatim>\<open>runtimeManager.List\<close> returned, an error
  or the instances in the order of that list.
\<close>

definition FindInstanceByModel ::
  "(string \<Rightarrow> string) \<Rightarrow> string + Instance list \<Rightarrow> string \<Rightarrow> find_error + Instance" where
  "FindInstanceByModel ToLower listing modelName =
     (case listing of
        Inl err \<Rightarrow> Inl (ListFailed err)
      | Inr instances \<Rightarrow>
          (let modelNameLower = ToLower modelName
           in case exact_pass ToLower modelNameLower instances of
                Some inst \<Rightarrow> Inr inst
              | None \<Rightarrow>
                  (case prefix_pass ToLower modelNameLower instances of
                     Some inst \<Rightarrow> Inr inst
                   | None \<Rightarrow> Inl (NoRunningInstance modelName))))"

text \<open>
  The resolution rule in the words of the specification: over the running instances, in
  list order, first an exact match of the lower-cased names, then a prefix match either
  way; the first hit wins.
\<close>

definition running_instances :: "Instance list \<Rightarrow> Instance list" where
  "running_instances instances = filter (\<lambda>i. inst_State i = ''running'') instances"

definition exact_match :: "(string \<Rightarrow> string) \<Rightarrow> string \<Rightarrow> Instance \<Rightarrow> bool" where
  "exact_match ToLower modelName i \<longleftrightarrow> ToLower (alias_or_model i) = ToLower modelName"

definition prefix_match :: "(string \<Rightarrow> string) \<Rightarrow> string \<Rightarrow> Instance \<Rightarrow> bool" where
  "prefix_match ToLower modelName i \<longleftrightarrow>
     prefix (ToLower modelName) (ToLower (alias_or_model i)) \<or>
     prefix (ToLower (alias_or_model i)) (ToLower modelName)"

definition resolve_model :: "(string \<Rightarrow> string) \<Rightarrow> Instance list \<Rightarrow> string \<Rightarrow> Instance option" where
  "resolve_model ToLower instances modelName =
     (case find (exact_match ToLower modelName) (running_instances instances) of
        Some i \<Rightarrow> Some i
      | None \<Rightarrow> find (prefix_match ToLower modelName) (running_instances instances))"

text \<open>\<^verbatim>\<open>strings.ToLower\<close> on ASCII text: the letters A to Z get bit 5 set.\<close>

fun ascii_lower_char :: "char \<Rightarrow> char" where
  "ascii_lower_char (Char b0 b1 b2 b3 b4 b5 b6 b7) =
     (let n = (of_char (Char b0 b1 b2 b3 b4 b5 b6 b7) :: nat)
      in if 65 \<le> n \<and> n \<le> 90 then Char b0 b1 b2 b3 b4 True b6 b7
         else Char b0 b1 b2 b3 b4 b5 b6 b7)"

definition ascii_ToLower :: "string \<Rightarrow> string" where
  "ascii_ToLower s = map ascii_lower_char s"


section \<open>Token counting (src/internal/server/handlers/proxy_anthropic.go)\<close>

text \<open>
  A handler is modelled by the response it writes. The request carries its method and
  what \<^verbatim>\<open>io.ReadAll\<close> returned for its body (an error or the bytes).
  \<^verbatim>\<open>json.Unmarshal\<close> into the request struct is the parameter \<open>unmarshal\<close>: it
  fails with a message or yields the decoded request.
\<close>

record http_request =
  req_Method :: string
  req_Body :: "string + string"

datatype response_body =
    TokenCountResponse int
  | AnthropicError string string

record http_response =
  resp_status :: int
  resp_body :: response_body

definition writeAnthropicError :: "int \<Rightarrow> string \<Rightarrow> string \<Rightarrow> http_response" where
  "writeAnthropicError statusCode errType message =
     \<lparr>resp_status = statusCode, resp_body = AnthropicError errType message\<rparr>"

definition HandleCountTokens :: "(string \<Rightarrow> string + 'req) \<Rightarrow> http_request \<Rightarrow> http_response" where
  "HandleCountTokens unmarshal r =
     (if req_Method r \<noteq> ''POST''
      then writeAnthropicError 405 ''invalid_request_error'' ''Only POST method is allowed''
      else case req_Body r of
        Inl err \<Rightarrow> writeAnthropicError 400 ''invalid_request_error'' ''Failed to read request body''
      | Inr bodyBytes \<Rightarrow>
          (case unmarshal bodyBytes of
             Inl err \<Rightarrow> writeAnthropicError 400 ''invalid_request_error'' (''Invalid JSON: '' @ err)
           | Inr req \<Rightarrow>
               (let charCount = int (length bodyBytes);
                    estimatedTokens = charCount div 4;
                    estimatedTokens = (if estimatedTokens < 1 then 1 else estimatedTokens)
                in \<lparr>resp_status = 200, resp_body = TokenCountResponse estimatedTokens\<rparr>)))"

text \<open>The estimate in the words of the specification: the body length over four, rounded up.\<close>

definition ceil_quarter :: "int \<Rightarrow> int" where
  "ceil_quarter l = - ((- l) div 4)"

section \<open>Format translator (src/unnamed/part_005, src/internal/models/spec.go)\<close>

text \<open>
  Values of Go's \<^verbatim>\<open>any\<close> that came out of a JSON decoder. Numbers are \<^verbatim>\<open>float64\<close> in
  Go; the model carries integers, and nothing below depends on a number.
\<close>

datatype json =
    JNull
  | JBool bool
  | JNumber int
  | JString string
  | JArray "json list"
  | JObject "(string \<times> json) list"

record ContentBlock =
  cb_Type :: string
  cb_Text :: string
  cb_Source :: "(string \<times> json) list option"
  cb_ID :: string
  cb_Name :: string
  cb_Input :: "(string \<times> json) list option"
  cb_ToolUseID :: string
  cb_Content :: string

record OpenAIFunctionCall =
  fc_Name :: string
  fc_Arguments :: string

record OpenAIToolCall =
  tc_ID :: string
  tc_Type :: string
  tc_Function :: OpenAIFunctionCall
  tc_Index :: "int option"

record OpenAIContentPart =
  part_Type :: string
  part_Text :: string
  part_ImageURL :: "string option"

text \<open>
  \<^verbatim>\<open>OpenAIMessage.Content\<close> has type \<^verbatim>\<open>any\<close>: nil, a string, the content parts the
  request converter builds, or whatever else a decoder produced.
\<close>

datatype openai_content =
    ContentNil
  | ContentString string
  | ContentParts "OpenAIContentPart list"
  | ContentOther json

record OpenAIMessage =
  msg_Role :: string
  msg_Content :: openai_content
  msg_ToolCalls :: "OpenAIToolCall list"
  msg_ToolCallID :: string

record OpenAIChoice =
  ch_Index :: int
  ch_Message :: OpenAIMessage
  ch_FinishReason :: string

record OpenAIUsage =
  PromptTokens :: int
  CompletionTokens :: int
  TotalTokens :: int

record OpenAIChatResponse =
  cr_ID :: string
  cr_Choices :: "OpenAIChoice list"
  cr_Usage :: OpenAIUsage

record Usage =
  InputTokens :: int
  OutputTokens :: int
  CacheCreationInputTokens :: int
  CacheReadInputTokens :: int

record MessagesResponse =
  mr_ID :: string
  mr_Type :: string
  mr_Role :: string
  mr_Model :: string
  mr_Content :: "ContentBlock list"
  mr_StopReason :: string
  mr_StopSequence :: "string option"
  mr_Usage :: Usage

text \<open>
  The calls into \<^verbatim>\<open>encoding/json\<close> that the translator makes, as parameters: decoding
  a raw value as a string, as a list of content blocks, as an object, as a chat response,
  and encoding an object. Decoding into a \<^verbatim>\<open>map[string]any\<close> can succeed and leave
  the map nil (the input \<^verbatim>\<open>null\<close>): \<open>unmarshal_object\<close> gives \<open>None\<close> for an error,
  \<open>Some None\<close> for the nil map and \<open>Some (Some m)\<close> for a map.
\<close>

record json_lib =
  unmarshal_string :: "string \<Rightarrow> string option"
  unmarshal_blocks :: "string \<Rightarrow> ContentBlock list option"
  unmarshal_object :: "string \<Rightarrow> (string \<times> json) list option option"
  unmarshal_response :: "string \<Rightarrow> string + OpenAIChatResponse"
  marshal_object :: "(string \<times> json) list \<Rightarrow> string"

datatype convert_error =
    ParsingOpenAIResponse string
  | NoChoices
  | ContentNotStringOrBlocks

definition coalesce :: "string list \<Rightarrow> string" where
  "coalesce values = (case filter (\<lambda>v. v \<noteq> []) values of [] \<Rightarrow> [] | v # _ \<Rightarrow> v)"

definition mapFinishReason :: "string \<Rightarrow> string" where
  "mapFinishReason reason =
     (if reason = ''stop'' then ''end_turn''
      else if reason = ''length'' then ''max_tokens''
      else if reason = ''tool_calls'' then ''tool_use''
      else ''end_turn'')"

text \<open>
  \<^verbatim>\<open>messageText\<close>: a value that is neither nil nor a string is encoded and decoded
  again as a string, which cannot succeed, so it yields the empty text.
\<close>

definition messageText :: "OpenAIMessage \<Rightarrow> string" where
  "messageText msg =
     (case msg_Content msg of
        ContentNil \<Rightarrow> []
      | ContentString v \<Rightarrow> v
      | ContentParts ps \<Rightarrow> []
      | ContentOther v \<Rightarrow> [])"

definition parseToolArguments :: "json_lib \<Rightarrow> string \<Rightarrow> (string \<times> json) list option" where
  "parseToolArguments lib args =
     (if args = [] then Some []
      else case unmarshal_object lib args of
             None \<Rightarrow> Some [(''raw'', JString args)]
           | Some m \<Rightarrow> m)"

definition empty_block :: ContentBlock where
  "empty_block = \<lparr>cb_Type = [], cb_Text = [], cb_Source = None, cb_ID = [], cb_Name = [],
                  cb_Input = None, cb_ToolUseID = [], cb_Content = []\<rparr>"

text \<open>
  \<^verbatim>\<open>generateMessageID\<close> and \<^verbatim>\<open>generateToolID\<close> read the system's random source; the
  model takes the hexadecimal strings they draw as inputs (\<open>tool_hex i\<close> for the i-th
  tool call).
\<close>

definition generateMessageID :: "string \<Rightarrow> string" where
  "generateMessageID hex = ''msg_'' @ hex"

definition generateToolID :: "string \<Rightarrow> string" where
  "generateToolID hex = ''toolu_'' @ hex"

fun tool_use_blocks :: "json_lib \<Rightarrow> (nat \<Rightarrow> string) \<Rightarrow> nat \<Rightarrow> OpenAIToolCall list \<Rightarrow> ContentBlock list" where
  "tool_use_blocks lib tool_hex i [] = []"
| "tool_use_blocks lib tool_hex i (tc # rest) =
     empty_block\<lparr>cb_Type := ''tool_use'',
                 cb_ID := coalesce [tc_ID tc, generateToolID (tool_hex i)],
                 cb_Name := fc_Name (tc_Function tc),
                 cb_Input := parseToolArguments lib (fc_Arguments (tc_Function tc))\<rparr>
     # tool_use_blocks lib tool_hex (Suc i) rest"

definition buildContentBlocks :: "json_lib \<Rightarrow> (nat \<Rightarrow> string) \<Rightarrow> OpenAIMessage \<Rightarrow> ContentBlock list" where
  "buildContentBlocks lib tool_hex msg =
     (let blocks = (if messageText msg \<noteq> []
                    then [empty_block\<lparr>cb_Type := ''text'', cb_Text := messageText msg\<rparr>]
                    else []);
          blocks = blocks @ tool_use_blocks lib tool_hex 0 (msg_ToolCalls msg)
      in if length blocks = 0
         then blocks @ [empty_block\<lparr>cb_Type := ''text'', cb_Text := []\<rparr>]
         else blocks)"

definition ConvertResponse ::
  "json_lib \<Rightarrow> string \<Rightarrow> (nat \<Rightarrow> string) \<Rightarrow> string \<Rightarrow> string \<Rightarrow> convert_error + MessagesResponse" where
  "ConvertResponse lib msg_hex tool_hex body requestModel =
     (case unmarshal_response lib body of
        Inl err \<Rightarrow> Inl (ParsingOpenAIResponse err)
      | Inr resp \<Rightarrow>
          (case cr_Choices resp of
             [] \<Rightarrow> Inl NoChoices
           | choice # _ \<Rightarrow>
               Inr \<lparr>mr_ID = coalesce [cr_ID resp, generateMessageID msg_hex],
                    mr_Type = ''message'',
                    mr_Role = ''assistant'',
                    mr_Model = requestModel,
                    mr_Content = buildContentBlocks lib tool_hex (ch_Message choice),
                    mr_StopReason = mapFinishReason (ch_FinishReason choice),
                    mr_StopSequence = None,
                    mr_Usage = \<lparr>InputTokens = PromptTokens (cr_Usage resp),
                                OutputTokens = CompletionTokens (cr_Usage resp),
                                CacheCreationInputTokens = 0,
                                CacheReadInputTokens = 0\<rparr>\<rparr>))"

subsection \<open>Request conversion: user and assistant messages\<close>

record Message =
  m_Role :: string
  m_Content :: string

definition newline :: string where
  "newline = [CHR 0x0A]"

text \<open>\<^verbatim>\<open>strings.Join\<close>.\<close>

fun Join :: "string list \<Rightarrow> string \<Rightarrow> string" where
  "Join [] sep = []"
| "Join [x] sep = x"
| "Join (x # y # rest) sep = x @ sep @ Join (y # rest) sep"

text \<open>\<^verbatim>\<open>json.Marshal\<close> of a map: a nil map is encoded as \<^verbatim>\<open>null\<close>.\<close>

definition marshal_map :: "json_lib \<Rightarrow> (string \<times> json) list option \<Rightarrow> string" where
  "marshal_map lib m = (case m of None \<Rightarrow> ''null'' | Some obj \<Rightarrow> marshal_object lib obj)"

definition extractToolResultContent :: "json_lib \<Rightarrow> string \<Rightarrow> string" where
  "extractToolResultContent lib raw =
     (if length raw = 0 then []
      else case unmarshal_string lib raw of
        Some s \<Rightarrow> s
      | None \<Rightarrow>
          (case unmarshal_blocks lib raw of
             Some blocks \<Rightarrow>
               Join (map cb_Text (filter (\<lambda>b. cb_Type b = ''text'') blocks)) newline
           | None \<Rightarrow>
               (case unmarshal_object lib raw of
                  Some obj \<Rightarrow> marshal_map lib obj
                | None \<Rightarrow> raw)))"

text \<open>
  The loop of \<^verbatim>\<open>convertUserToolResults\<close> that fills the string builder, and the
  function itself. \<^verbatim>\<open>strings.TrimSpace\<close> is Unicode aware and is the parameter
  \<open>TrimSpace\<close>; \<open>ascii_TrimSpace\<close> below is its restriction to ASCII.
\<close>

fun tool_results_text :: "json_lib \<Rightarrow> ContentBlock list \<Rightarrow> string" where
  "tool_results_text lib [] = []"
| "tool_results_text lib (b # rest) =
     (if cb_Type b = ''text'' then cb_Text b @ newline
      else if cb_Type b = ''tool_result''
        then ''Tool result for '' @ cb_ToolUseID b @ '':'' @ newline
             @ extractToolResultContent lib (cb_Content b) @ newline
      else [])
     @ tool_results_text lib rest"

definition user_message :: "openai_content \<Rightarrow> OpenAIMessage" where
  "user_message c = \<lparr>msg_Role = ''user'', msg_Content = c, msg_ToolCalls = [], msg_ToolCallID = []\<rparr>"

definition convertUserToolResults ::
  "(string \<Rightarrow> string) \<Rightarrow> json_lib \<Rightarrow> ContentBlock list \<Rightarrow> convert_error + OpenAIMessage list" where
  "convertUserToolResults TrimSpace lib blocks =
     (let text = TrimSpace (tool_results_text lib blocks);
          text = (if text = [] then ''...'' else text)
      in Inr [user_message (ContentString text)])"

text \<open>
  \<^verbatim>\<open>buildImageURL\<close>; \<open>str_field\<close> is the type assertion \<^verbatim>\<open>source[k].(string)\<close>, the
  empty string when the key is missing or holds another type.
\<close>

definition str_field :: "(string \<times> json) list \<Rightarrow> string \<Rightarrow> string" where
  "str_field obj k = (case map_of obj k of Some (JString v) \<Rightarrow> v | _ \<Rightarrow> [])"

definition buildImageURL :: "(string \<times> json) list option \<Rightarrow> string" where
  "buildImageURL source =
     (case source of
        None \<Rightarrow> []
      | Some src \<Rightarrow>
          (let srcType = str_field src ''type'';
               mediaType = str_field src ''media_type'';
               dat = str_field src ''data''
           in if srcType = ''base64'' \<and> mediaType \<noteq> [] \<and> dat \<noteq> []
              then ''data:'' @ mediaType @ '';base64,'' @ dat
              else if srcType = ''url'' then str_field src ''url''
              else []))"

fun user_parts :: "ContentBlock list \<Rightarrow> OpenAIContentPart list" where
  "user_parts [] = []"
| "user_parts (b # rest) =
     (if cb_Type b = ''text''
        then [\<lparr>part_Type = ''text'', part_Text = cb_Text b, part_ImageURL = None\<rparr>]
      else if cb_Type b = ''image'' \<and> buildImageURL (cb_Source b) \<noteq> []
        then [\<lparr>part_Type = ''image_url'', part_Text = [],
               part_ImageURL = Some (buildImageURL (cb_Source b))\<rparr>]
      else [])
     @ user_parts rest"

definition convertUserBlocks ::
  "(string \<Rightarrow> string) \<Rightarrow> json_lib \<Rightarrow> ContentBlock list \<Rightarrow> convert_error + OpenAIMessage list" where
  "convertUserBlocks TrimSpace lib blocks =
     (let hasToolResult = list_ex (\<lambda>b. cb_Type b = ''tool_result'') blocks
      in if hasToolResult then convertUserToolResults TrimSpace lib blocks
         else (let parts = user_parts blocks
               in case parts of
                    [p] \<Rightarrow> (if part_Type p = ''text''
                             then Inr [user_message (ContentString (part_Text p))]
                             else Inr [user_message (ContentParts parts)])
                  | _ \<Rightarrow> Inr [user_message (ContentParts parts)]))"

text \<open>
  \<^verbatim>\<open>convertAssistantBlocks\<close>. \<^verbatim>\<open>json.Marshal\<close> of a nil \<^verbatim>\<open>Input\<close> map gives
  \<^verbatim>\<open>null\<close>; it does not fail on a decoded map, so the fallback to \<^verbatim>\<open>{}\<close> is not a
  branch of the model.
\<close>

fun assistant_tool_calls :: "json_lib \<Rightarrow> ContentBlock list \<Rightarrow> OpenAIToolCall list" where
  "assistant_tool_calls lib [] = []"
| "assistant_tool_calls lib (b # rest) =
     (if cb_Type b = ''tool_use''
        then [\<lparr>tc_ID = cb_ID b, tc_Type = ''function'',
               tc_Function = \<lparr>fc_Name = cb_Name b,
                               fc_Arguments = marshal_map lib (cb_Input b)\<rparr>,
               tc_Index = None\<rparr>]
      else [])
     @ assistant_tool_calls lib rest"

definition convertAssistantBlocks ::
  "json_lib \<Rightarrow> ContentBlock list \<Rightarrow> convert_error + OpenAIMessage list" where
  "convertAssistantBlocks lib blocks =
     (let textParts = map cb_Text (filter (\<lambda>b. cb_Type b = ''text'' \<and> cb_Text b \<noteq> []) blocks);
          text = Join textParts newline
      in Inr [\<lparr>msg_Role = ''assistant'',
                msg_Content = (if text \<noteq> [] then ContentString text else ContentNil),
                msg_ToolCalls = assistant_tool_calls lib blocks,
                msg_ToolCallID = []\<rparr>])"

definition convertOneMessage ::
  "(string \<Rightarrow> string) \<Rightarrow> json_lib \<Rightarrow> Message \<Rightarrow> convert_error + OpenAIMessage list" where
  "convertOneMessage TrimSpace lib msg =
     (case unmarshal_string lib (m_Content msg) of
        Some textContent \<Rightarrow>
          Inr [\<lparr>msg_Role = m_Role msg, msg_Content = ContentString textContent,
                msg_ToolCalls = [], msg_ToolCallID = []\<rparr>]
      | None \<Rightarrow>
          (case unmarshal_blocks lib (m_Content msg) of
             None \<Rightarrow> Inl ContentNotStringOrBlocks
           | Some blocks \<Rightarrow>
               if m_Role msg = ''user'' then convertUserBlocks TrimSpace lib blocks
               else convertAssistantBlocks lib blocks))"

text \<open>
  \<^verbatim>\<open>strings.TrimSpace\<close> on ASCII text: leading and trailing tab, line feed, vertical
  tab, form feed, carriage return and space are cut off.
\<close>

definition ascii_space :: "char \<Rightarrow> bool" where
  "ascii_space c \<longleftrightarrow> c \<in> set [CHR 0x09, CHR 0x0A, CHR 0x0B, CHR 0x0C, CHR 0x0D, CHR 0x20]"

definition ascii_TrimSpace :: "string \<Rightarrow> string" where
  "ascii_TrimSpace s = rev (dropWhile ascii_space (rev (dropWhile ascii_space s)))"

section \<open>Container environment (src/internal/runtime/omni-infer-docker/runtime.go)\<close>

text \<open>
  Values of Go's \<^verbatim>\<open>interface{}\<close> in the option maps, as far as the code inspects them
  with type assertions.
\<close>

datatype go_any = AnyNil | AnyBool bool | AnyInt int | AnyString string | AnyOther

record DeviceInfo =
  di_Type :: string
  di_Index :: int
  di_PCIAddress :: string
  di_ModelName :: string
  di_ConfigKey :: string
  di_Properties :: "(string \<times> string) list"

record CreateParams =
  cp_InstanceID :: string
  cp_ModelID :: string
  cp_Alias :: string
  cp_ModelPath :: string
  cp_ModelVersion :: string
  cp_BackendType :: string
  cp_DeploymentMode :: string
  cp_ServerName :: string
  cp_Devices :: "DeviceInfo list"
  cp_Port :: int
  cp_TensorParallel :: int
  cp_Environment :: "string \<rightharpoonup> string"
  cp_ExtraConfig :: "string \<rightharpoonup> go_any"

text \<open>\<^verbatim>\<open>fmt.Sprintf("%d", n)\<close>: the decimal digits of an integer.\<close>

definition digit_char :: "nat \<Rightarrow> char" where
  "digit_char d = ''0123456789'' ! d"

fun digits :: "nat \<Rightarrow> string" where
  "digits n = (if n < 10 then [digit_char n] else digits (n div 10) @ [digit_char (n mod 10)])"

definition itoa :: "int \<Rightarrow> string" where
  "itoa i = (if i < 0 then ''-'' @ digits (nat (- i)) else digits (nat i))"

text \<open>
  The device sandbox is an interface; of its methods the environment needs
  \<^verbatim>\<open>PrepareEnvironment\<close>, which fails with a message or yields the sandbox's variables.
\<close>

record DeviceSandbox =
  PrepareEnvironment :: "DeviceInfo list \<Rightarrow> string + (string \<rightharpoonup> string)"

datatype create_error =
    InstanceIDRequired
  | InstanceAlreadyExists string
  | DeviceRequired
  | SelectSandboxFailed string
  | PrepareEnvironmentFailed string

text \<open>
  The two copy loops of \<^verbatim>\<open>Create\<close>: the user's variables first, then the sandbox's
  over them.
\<close>

definition merge_env :: "(string \<rightharpoonup> string) \<Rightarrow> (string \<rightharpoonup> string) \<Rightarrow> (string \<rightharpoonup> string)" where
  "merge_env userEnv sandboxEnv = userEnv ++ sandboxEnv"

text \<open>
  \<^verbatim>\<open>Create\<close> up to the point where the container's environment is complete: the error
  of an earlier return, or the environment map that is then written into the container
  configuration. \<open>existing\<close> are the ids in the runtime's instance map. The base runtime's
  \<^verbatim>\<open>SelectSandbox\<close> and \<^verbatim>\<open>ApplyTemplateParams\<close> are not part of this file and are
  the parameters \<open>select_sandbox\<close> and \<open>apply_template\<close>; the latter rewrites the
  environment map in place.
\<close>

definition Create_env ::
  "(string \<Rightarrow> string + DeviceSandbox) \<Rightarrow>
   (CreateParams \<Rightarrow> (string \<rightharpoonup> string) \<Rightarrow> (string \<rightharpoonup> string)) \<Rightarrow>
   string set \<Rightarrow> CreateParams option \<Rightarrow> create_error + (string \<rightharpoonup> string)" where
  "Create_env select_sandbox apply_template existing params_opt =
     (case params_opt of
        None \<Rightarrow> Inl InstanceIDRequired
      | Some params \<Rightarrow>
          if cp_InstanceID params = [] then Inl InstanceIDRequired
          else if cp_InstanceID params \<in> existing
            then Inl (InstanceAlreadyExists (cp_InstanceID params))
          else (case cp_Devices params of
             [] \<Rightarrow> Inl DeviceRequired
           | dev0 # _ \<Rightarrow>
               (case select_sandbox (di_ConfigKey dev0) of
                  Inl err \<Rightarrow> Inl (SelectSandboxFailed err)
                | Inr sandbox \<Rightarrow>
                    (case PrepareEnvironment sandbox (cp_Devices params) of
                       Inl err \<Rightarrow> Inl (PrepareEnvironmentFailed err)
                     | Inr sandboxEnv \<Rightarrow>
                         (let env = merge_env (cp_Environment params) sandboxEnv;
                              env = apply_template params env;
                              env = env(''MODEL_PATH'' \<mapsto> ''/mnt/model'');
                              modelName = (if cp_Alias params = [] then cp_ModelID params
                                           else cp_Alias params);
                              env = env(''MODEL_NAME'' \<mapsto> modelName);
                              env = (if cp_TensorParallel params > 0
                                     then env(''TENSOR_PARALLEL_SIZE'' \<mapsto>
                                                itoa (cp_TensorParallel params))
                                     else env(''TENSOR_PARALLEL_SIZE'' \<mapsto>
                                                itoa (int (length (cp_Devices params)))));
                              env = (case cp_ExtraConfig params ''max_model_len'' of
                                       Some (AnyInt maxLen) \<Rightarrow>
                                         if maxLen > 0
                                         then env(''MAX_MODEL_LEN'' \<mapsto> itoa maxLen)
                                         else env
                                     | _ \<Rightarrow> env);
                              env = (if cp_Port params > 0
                                     then env(''SERVER_PORT'' \<mapsto> itoa (cp_Port params))
                                     else env(''SERVER_PORT'' \<mapsto> ''8000''))
                          in Inr env)))))"

text \<open>Reading one variable of the environment \<^verbatim>\<open>Create\<close> built (none after an error).\<close>

definition env_lookup :: "create_error + (string \<rightharpoonup> string) \<Rightarrow> string \<Rightarrow> string option" where
  "env_lookup r k = (case r of Inl err \<Rightarrow> None | Inr env \<Rightarrow> env k)"

text \<open>The variables \<^verbatim>\<open>Create\<close> writes itself, after the merge.\<close>

definition canonical_keys :: "string set" where
  "canonical_keys =
     {''MODEL_PATH'', ''MODEL_NAME'', ''TENSOR_PARALLEL_SIZE'', ''MAX_MODEL_LEN'',
      ''SERVER_PORT''}"

section \<open>Stream adapter (src/internal/apiformat/stream.go)\<close>

record OpenAIChunkDelta =
  cd_Role :: string
  cd_Content :: "string option"
  cd_ToolCalls :: "OpenAIToolCall list"

record OpenAIChunkChoice =
  cc_Index :: int
  cc_Delta :: OpenAIChunkDelta
  cc_FinishReason :: "string option"

record OpenAIChatChunk =
  ck_ID :: string
  ck_Choices :: "OpenAIChunkChoice list"
  ck_Usage :: "OpenAIUsage option"

text \<open>
  What the adapter writes, one constructor per emitter. \<open>message_stop\<close> is the event
  alone; the \<^verbatim>\<open>data: [DONE]\<close> line that \<^verbatim>\<open>emitMessageStop\<close> writes after it is
  \<open>done_marker\<close>.
\<close>

datatype block_kind = text_block | tool_use_block string string

datatype block_delta = text_delta string | input_json_delta string

datatype sse_event =
    message_start string string
  | content_block_start int block_kind
  | ping
  | content_block_delta int block_delta
  | content_block_stop int
  | message_delta string int
  | message_stop
  | done_marker

record StreamAdapter =
  sa_requestModel :: string
  sa_messageID :: string
  sa_blockIndex :: int
  sa_textBlockOpen :: bool
  sa_textBlockDone :: bool
  sa_toolIndex :: "int option"
  sa_lastBlockIndex :: int
  sa_inputTokens :: int
  sa_outputTokens :: int
  sa_finished :: bool

definition NewStreamAdapter :: "string \<Rightarrow> string \<Rightarrow> StreamAdapter" where
  "NewStreamAdapter model msg_hex =
     \<lparr>sa_requestModel = model, sa_messageID = generateMessageID msg_hex, sa_blockIndex = 0,
      sa_textBlockOpen = False, sa_textBlockDone = False, sa_toolIndex = None, sa_lastBlockIndex = 0,
      sa_inputTokens = 0, sa_outputTokens = 0, sa_finished = False\<rparr>"

text \<open>
  Every function of the adapter returns the adapter after the call and the events it
  wrote, in order. \<open>fresh_hex\<close> is the random source of \<^verbatim>\<open>generateToolID\<close>, indexed by
  the block the id is drawn for.
\<close>

fun tool_call_loop ::
  "(int \<Rightarrow> string) \<Rightarrow> StreamAdapter \<Rightarrow> OpenAIToolCall list \<Rightarrow> StreamAdapter \<times> sse_event list" where
  "tool_call_loop fresh_hex sa [] = (sa, [])"
| "tool_call_loop fresh_hex sa (tc # rest) =
     (let idx = (case tc_Index tc of None \<Rightarrow> 0 | Some i \<Rightarrow> i);
          (sa1, started) =
            (if sa_toolIndex sa = None \<or> Some idx \<noteq> sa_toolIndex sa
             then (let blockIdx = sa_lastBlockIndex sa + 1;
                       toolID = (if tc_ID tc = [] then generateToolID (fresh_hex blockIdx)
                                 else tc_ID tc)
                   in (sa\<lparr>sa_toolIndex := Some idx, sa_lastBlockIndex := blockIdx\<rparr>,
                       [content_block_start blockIdx
                          (tool_use_block toolID (fc_Name (tc_Function tc)))]))
             else (sa, []));
          fragment =
            (if fc_Arguments (tc_Function tc) \<noteq> []
             then [content_block_delta (sa_lastBlockIndex sa1)
                     (input_json_delta (fc_Arguments (tc_Function tc)))]
             else []);
          (sa2, later) = tool_call_loop fresh_hex sa1 rest
      in (sa2, started @ fragment @ later))"

definition processToolCalls ::
  "(int \<Rightarrow> string) \<Rightarrow> StreamAdapter \<Rightarrow> OpenAIToolCall list \<Rightarrow> StreamAdapter \<times> sse_event list" where
  "processToolCalls fresh_hex sa toolCalls =
     (let (sa1, closed) =
            (if sa_toolIndex sa = None \<and> \<not> sa_textBlockDone sa
             then (sa\<lparr>sa_textBlockDone := True\<rparr>, [content_block_stop 0])
             else (sa, []));
          (sa2, evs) = tool_call_loop fresh_hex sa1 toolCalls
      in (sa2, closed @ evs))"

text \<open>The indices \<^verbatim>\<open>for i := 1; i <= sa.lastBlockIndex; i++\<close> runs through.\<close>

definition tool_block_indices :: "int \<Rightarrow> int list" where
  "tool_block_indices n = [1..n]"

definition handleFinish :: "StreamAdapter \<Rightarrow> string \<Rightarrow> StreamAdapter \<times> sse_event list" where
  "handleFinish sa reason =
     (if sa_finished sa then (sa, [])
      else (let sa1 = sa\<lparr>sa_finished := True\<rparr>;
                tools = map content_block_stop (tool_block_indices (sa_lastBlockIndex sa1));
                (sa2, txt_stop) =
                  (if \<not> sa_textBlockDone sa1
                   then (sa1\<lparr>sa_textBlockDone := True\<rparr>, [content_block_stop 0])
                   else (sa1, []))
            in (sa2, tools @ txt_stop
                      @ [message_delta (mapFinishReason reason) (sa_outputTokens sa2),
                         message_stop, done_marker])))"

definition finalize :: "StreamAdapter \<Rightarrow> StreamAdapter \<times> sse_event list" where
  "finalize sa = (if \<not> sa_finished sa then handleFinish sa ''stop'' else (sa, []))"

definition processChunk ::
  "(int \<Rightarrow> string) \<Rightarrow> StreamAdapter \<Rightarrow> OpenAIChatChunk \<Rightarrow> StreamAdapter \<times> sse_event list" where
  "processChunk fresh_hex sa chunk =
     (let sa0 = (case ck_Usage chunk of
                   None \<Rightarrow> sa
                 | Some u \<Rightarrow> sa\<lparr>sa_inputTokens := PromptTokens u,
                                 sa_outputTokens := CompletionTokens u\<rparr>)
      in case ck_Choices chunk of
           [] \<Rightarrow> (sa0, [])
         | choice # _ \<Rightarrow>
             (let delta = cc_Delta choice;
                  text_evs =
                    (case cd_Content delta of
                       None \<Rightarrow> []
                     | Some c \<Rightarrow>
                         if c \<noteq> [] \<and> sa_textBlockOpen sa0 \<and> \<not> sa_textBlockDone sa0
                         then [content_block_delta 0 (text_delta c)]
                         else []);
                  (sa1, tool_evs) =
                    (if length (cd_ToolCalls delta) > 0
                     then processToolCalls fresh_hex sa0 (cd_ToolCalls delta)
                     else (sa0, []));
                  (sa2, fin_evs) =
                    (case cc_FinishReason choice of
                       None \<Rightarrow> (sa1, [])
                     | Some reason \<Rightarrow> handleFinish sa1 reason)
              in (sa2, text_evs @ tool_evs @ fin_evs)))"

text \<open>
  The scanner loop of \<^verbatim>\<open>Transform\<close> over the lines read so far. A line without the
  \<^verbatim>\<open>data: \<close> prefix and a payload that does not decode are skipped; the payload
  \<^verbatim>\<open>[DONE]\<close> ends the loop. \<open>unmarshal_chunk\<close> is \<^verbatim>\<open>json.Unmarshal\<close> into a chunk.
\<close>

fun scan_lines ::
  "(string \<Rightarrow> OpenAIChatChunk option) \<Rightarrow> (int \<Rightarrow> string) \<Rightarrow> StreamAdapter \<Rightarrow> string list
     \<Rightarrow> StreamAdapter \<times> sse_event list" where
  "scan_lines unmarshal_chunk fresh_hex sa [] = (sa, [])"
| "scan_lines unmarshal_chunk fresh_hex sa (line # rest) =
     (if \<not> HasPrefix line ''data: '' then scan_lines unmarshal_chunk fresh_hex sa rest
      else (let payload = drop (length ''data: '') line
            in if payload = ''[DONE]'' then (sa, [])
               else case unmarshal_chunk payload of
                      None \<Rightarrow> scan_lines unmarshal_chunk fresh_hex sa rest
                    | Some chunk \<Rightarrow>
                        (let (sa1, evs) = processChunk fresh_hex sa chunk;
                             (sa2, later) = scan_lines unmarshal_chunk fresh_hex sa1 rest
                         in (sa2, evs @ later))))"

text \<open>
  \<^verbatim>\<open>Transform\<close>: the opening envelope, the loop, \<^verbatim>\<open>finalize\<close>. The input is the
  lines the scanner delivers and the error it ends with, if any, which \<^verbatim>\<open>Transform\<close>
  returns; the result also holds everything written to the client.
\<close>

definition Transform ::
  "(string \<Rightarrow> OpenAIChatChunk option) \<Rightarrow> (int \<Rightarrow> string) \<Rightarrow> StreamAdapter \<Rightarrow> string list
     \<Rightarrow> string option \<Rightarrow> (StreamAdapter \<times> sse_event list) \<times> string option" where
  "Transform unmarshal_chunk fresh_hex sa lines scan_err =
     (let opening = [message_start (sa_messageID sa) (sa_requestModel sa),
                     content_block_start 0 text_block, ping];
          sa1 = sa\<lparr>sa_textBlockOpen := True\<rparr>;
          (sa2, evs) = scan_lines unmarshal_chunk fresh_hex sa1 lines;
          (sa3, closing) = finalize sa2
      in ((sa3, opening @ evs @ closing), scan_err))"

text \<open>
  The ordering rule of the event stream, as a check that runs over the events: \<open>opened\<close>
  holds the indices of the blocks that are started and not yet stopped. Every delta must
  fall on such a block, every stop must close one, and no block may be left open.
\<close>

fun deltas_bracketed :: "int list \<Rightarrow> sse_event list \<Rightarrow> bool" where
  "deltas_bracketed opened [] = (opened = [])"
| "deltas_bracketed opened (content_block_start i b # es) = deltas_bracketed (i # opened) es"
| "deltas_bracketed opened (content_block_delta i d # es) =
     (i \<in> set opened \<and> deltas_bracketed opened es)"
| "deltas_bracketed opened (content_block_stop i # es) =
     (i \<in> set opened \<and> deltas_bracketed (removeAll i opened) es)"
| "deltas_bracketed opened (e # es) = deltas_bracketed opened es"

text \<open>\<open>message_stop\<close> is the last event, right before the final \<^verbatim>\<open>[DONE]\<close> line.\<close>

definition message_stop_last :: "sse_event list \<Rightarrow> bool" where
  "message_stop_last es \<longleftrightarrow>
     2 \<le> length es \<and> drop (length es - 2) es = [message_stop, done_marker]"

definition sse_ordered :: "sse_event list \<Rightarrow> bool" where
  "sse_ordered es \<longleftrightarrow> deltas_bracketed [] es \<and> message_stop_last es"

section \<open>Runtime manager (src/internal/runtime/port.go, second part)\<close>

text \<open>
  \<^verbatim>\<open>Manager.Run\<close> works through two interfaces whose implementations are not part of
  this file: a \<^verbatim>\<open>Runtime\<close> (create, start, remove, list) and the device allocator.
  Both act on the container engine and on the registry behind it. The model threads that
  outside state through every call as a value of type \<open>'w\<close>, and an interface is the
  record of its methods as functions on \<open>'w\<close>. An \<^verbatim>\<open>error\<close> is its message.
  \<^verbatim>\<open>Create\<close> returns a pointer to the instance it registered: the model returns a
  reference of type \<open>'r\<close>, and \<open>rt_deref\<close> reads the instance behind it in a given state.
\<close>

record ('w, 'r) Runtime =
  rt_Create :: "CreateParams \<Rightarrow> 'w \<Rightarrow> (string + 'r) \<times> 'w"
  rt_Start :: "string \<Rightarrow> 'w \<Rightarrow> string option \<times> 'w"
  rt_Remove :: "string \<Rightarrow> 'w \<Rightarrow> string option \<times> 'w"
  rt_List :: "'w \<Rightarrow> string + Instance list"
  rt_deref :: "'r \<Rightarrow> 'w \<Rightarrow> Instance"

text \<open>\<^verbatim>\<open>device.DeviceInfo\<close>, with the topology box of the logical device.\<close>

record device_DeviceInfo =
  dv_Type :: string
  dv_Index :: int
  dv_BusAddress :: string
  dv_ModelName :: string
  dv_Properties :: "(string \<times> string) list"
  dv_Box :: "int option"

record 'w Allocator =
  al_GetAllDevices :: "device_DeviceInfo list"
  al_Allocate :: "string \<Rightarrow> int \<Rightarrow> 'w \<Rightarrow> (string + device_DeviceInfo list) \<times> 'w"
  al_Release :: "string \<Rightarrow> 'w \<Rightarrow> string option \<times> 'w"

text \<open>
  The manager: its map of runtimes by name (an association list, in the order the map is
  iterated) and the lazily created allocator.
\<close>

record ('w, 'r) Manager =
  mg_runtimes :: "(string \<times> ('w, 'r) Runtime) list"
  mg_deviceAllocator :: "'w Allocator option"

record RunOptions =
  ro_ModelID :: string
  ro_ModelPath :: string
  ro_BackendType :: string
  ro_DeploymentMode :: string
  ro_Port :: int
  ro_AdditionalConfig :: "string \<rightharpoonup> go_any"

record RunInstance =
  ri_ID :: string
  ri_ModelID :: string
  ri_BackendType :: string
  ri_DeploymentMode :: string
  ri_State :: string
  ri_CreatedAt :: int
  ri_StartedAt :: "int option"
  ri_Port :: int
  ri_Error :: string
  ri_Config :: "(string \<rightharpoonup> go_any) option"

datatype parse_error =
    EmptyDeviceList
  | InvalidDeviceIndex string
  | NegativeDeviceIndex int
  | NoValidDeviceIndices

datatype run_error =
    RunOptionsNil
  | RuntimeNotAvailable string
  | ModelPathRequired
  | FailedToInitAllocator string
  | InvalidDeviceList parse_error
  | DeviceIndexOutOfRange int nat
  | FailedToAllocateDevices string
  | FailedToCreateInstance string
  | FailedToStartInstance string

text \<open>
  What \<^verbatim>\<open>Run\<close> takes from its surroundings: \<^verbatim>\<open>strings.TrimSpace\<close>, the outcome of
  \<^verbatim>\<open>device.NewAllocator\<close> should the allocator have to be created, and the clock
  (\<^verbatim>\<open>time.Now().Unix()\<close>).
\<close>

record 'w run_env =
  env_TrimSpace :: "string \<Rightarrow> string"
  env_NewAllocator :: "string + 'w Allocator"
  env_now :: int

text \<open>\<^verbatim>\<open>Manager.List\<close>: a runtime whose listing fails is skipped; the error is always nil.\<close>

fun list_runtimes :: "(string \<times> ('w, 'r) Runtime) list \<Rightarrow> 'w \<Rightarrow> Instance list" where
  "list_runtimes [] w = []"
| "list_runtimes ((name, rt) # rest) w =
     (case rt_List rt w of
        Inl err \<Rightarrow> list_runtimes rest w
      | Inr instances \<Rightarrow> instances @ list_runtimes rest w)"

definition Manager_List :: "('w, 'r) Manager \<Rightarrow> 'w \<Rightarrow> string + Instance list" where
  "Manager_List m w = Inr (list_runtimes (mg_runtimes m) w)"

definition getOrCreateAllocator ::
  "'w run_env \<Rightarrow> ('w, 'r) Manager \<Rightarrow> (string + 'w Allocator) \<times> ('w, 'r) Manager" where
  "getOrCreateAllocator E m =
     (case mg_deviceAllocator m of
        Some allocator \<Rightarrow> (Inr allocator, m)
      | None \<Rightarrow>
          (case env_NewAllocator E of
             Inl err \<Rightarrow> (Inl err, m)
           | Inr allocator \<Rightarrow> (Inr allocator, m\<lparr>mg_deviceAllocator := Some allocator\<rparr>)))"

text \<open>\<^verbatim>\<open>strings.Split(s, sep)\<close> for a separator of one byte.\<close>

fun Split :: "string \<Rightarrow> char \<Rightarrow> string list" where
  "Split [] sep = [[]]"
| "Split (c # cs) sep =
     (if c = sep then [] # Split cs sep
      else (case Split cs sep of
              part # parts \<Rightarrow> (c # part) # parts
            | [] \<Rightarrow> [[c]]))"

text \<open>
  \<^verbatim>\<open>strconv.Atoi\<close>: an optional sign, then one or more decimal digits, and a value that
  fits 64 bits; anything else is an error.
\<close>

definition digit_value :: "char \<Rightarrow> nat option" where
  "digit_value c =
     (let n = (of_char c :: nat) in if 48 \<le> n \<and> n \<le> 57 then Some (n - 48) else None)"

fun parse_digits :: "nat \<Rightarrow> string \<Rightarrow> nat option" where
  "parse_digits acc [] = Some acc"
| "parse_digits acc (c # cs) =
     (case digit_value c of
        None \<Rightarrow> None
      | Some d \<Rightarrow> parse_digits (acc * 10 + d) cs)"

definition Atoi :: "string \<Rightarrow> int option" where
  "Atoi s =
     (let (neg, ds) = (case s of
                         [] \<Rightarrow> (False, [])
                       | c # cs \<Rightarrow> if c = CHR ''-'' then (True, cs)
                                   else if c = CHR ''+'' then (False, cs)
                                   else (False, s))
      in if ds = [] then None
         else case parse_digits 0 ds of
                None \<Rightarrow> None
              | Some n \<Rightarrow>
                  (let v = (if neg then - int n else int n)
                   in if v < - (2 ^ 63) \<or> 2 ^ 63 \<le> v then None else Some v))"

text \<open>The loop of \<^verbatim>\<open>parseDeviceList\<close> over the parts, and the function.\<close>

fun parse_parts :: "(string \<Rightarrow> string) \<Rightarrow> string list \<Rightarrow> parse_error + int list" where
  "parse_parts TrimSpace [] = Inr []"
| "parse_parts TrimSpace (part # rest) =
     (let part' = TrimSpace part
      in if part' = [] then parse_parts TrimSpace rest
         else case Atoi part' of
                None \<Rightarrow> Inl (InvalidDeviceIndex part')
              | Some idx \<Rightarrow>
                  if idx < 0 then Inl (NegativeDeviceIndex idx)
                  else (case parse_parts TrimSpace rest of
                          Inl err \<Rightarrow> Inl err
                        | Inr indices \<Rightarrow> Inr (idx # indices)))"

definition parseDeviceList :: "(string \<Rightarrow> string) \<Rightarrow> string \<Rightarrow> parse_error + int list" where
  "parseDeviceList TrimSpace deviceList =
     (let deviceList' = TrimSpace deviceList
      in if deviceList' = [] then Inl EmptyDeviceList
         else case parse_parts TrimSpace (Split deviceList' (CHR '','')) of
                Inl err \<Rightarrow> Inl err
              | Inr indices \<Rightarrow> if length indices = 0 then Inl NoValidDeviceIndices
                               else Inr indices)"

text \<open>
  The conversion from \<^verbatim>\<open>device.DeviceInfo\<close> to \<^verbatim>\<open>runtime.DeviceInfo\<close> that both
  branches of \<^verbatim>\<open>Run\<close> write out; the fields it does not set are zero.
\<close>

definition to_runtime_device :: "device_DeviceInfo \<Rightarrow> DeviceInfo" where
  "to_runtime_device dev =
     \<lparr>di_Type = dv_Type dev, di_Index = dv_Index dev, di_PCIAddress = dv_BusAddress dev,
      di_ModelName = dv_ModelName dev, di_ConfigKey = [],
      di_Properties = dv_Properties dev\<rparr>"

text \<open>
  The loop over the requested indices. \<^verbatim>\<open>parseDeviceList\<close> has rejected negative
  indices, so \<^verbatim>\<open>allDevices[idx]\<close> is in range once \<^verbatim>\<open>idx >= len(allDevices)\<close> is
  excluded.
\<close>

fun select_devices :: "device_DeviceInfo list \<Rightarrow> int list \<Rightarrow> run_error + DeviceInfo list" where
  "select_devices allDevices [] = Inr []"
| "select_devices allDevices (idx # rest) =
     (if idx \<ge> int (length allDevices)
      then Inl (DeviceIndexOutOfRange idx (length allDevices))
      else (case select_devices allDevices rest of
              Inl err \<Rightarrow> Inl err
            | Inr devices \<Rightarrow> Inr (to_runtime_device (allDevices ! nat idx) # devices)))"

text \<open>The metadata lookup \<^verbatim>\<open>inst.Metadata[k]\<close>, empty for a missing key.\<close>

definition metadata :: "Instance \<Rightarrow> string \<Rightarrow> string" where
  "metadata inst k = (case map_of (inst_Metadata inst) k of None \<Rightarrow> [] | Some v \<Rightarrow> v)"

definition existing_RunInstance :: "Instance \<Rightarrow> RunInstance" where
  "existing_RunInstance inst =
     \<lparr>ri_ID = inst_ID inst, ri_ModelID = inst_ModelID inst,
      ri_BackendType = metadata inst ''backend_type'',
      ri_DeploymentMode = metadata inst ''deployment_mode'',
      ri_State = inst_State inst, ri_CreatedAt = inst_CreatedAt inst,
      ri_StartedAt = inst_StartedAt inst, ri_Port = inst_Port inst,
      ri_Error = inst_Error inst, ri_Config = None\<rparr>"

text \<open>The loop that looks for a running instance of the requested model.\<close>

fun find_running :: "string \<Rightarrow> Instance list \<Rightarrow> Instance option" where
  "find_running modelID [] = None"
| "find_running modelID (inst # rest) =
     (if inst_ModelID inst = modelID \<and> inst_State inst = StateRunning then Some inst
      else find_running modelID rest)"

text \<open>
  The creation parameters \<^verbatim>\<open>Run\<close> fills in; \<^verbatim>\<open>ExtraConfig\<close> is a copy of the
  additional configuration, the environment is empty, and the fields it leaves out
  are zero.
\<close>

definition new_CreateParams :: "RunOptions \<Rightarrow> string \<Rightarrow> DeviceInfo list \<Rightarrow> CreateParams" where
  "new_CreateParams opts instanceID devices =
     \<lparr>cp_InstanceID = instanceID, cp_ModelID = ro_ModelID opts, cp_Alias = [],
      cp_ModelPath = ro_ModelPath opts, cp_ModelVersion = ''latest'',
      cp_BackendType = ro_BackendType opts, cp_DeploymentMode = ro_DeploymentMode opts,
      cp_ServerName = [], cp_Devices = devices, cp_Port = ro_Port opts,
      cp_TensorParallel = 0, cp_Environment = Map.empty,
      cp_ExtraConfig = ro_AdditionalConfig opts\<rparr>"

text \<open>
  The second half of \<^verbatim>\<open>Run\<close>, from the creation parameters on: create, start, and on
  a failed start the clean-up, whose two results are dropped.
\<close>

definition create_and_start ::
  "('w, 'r) Runtime \<Rightarrow> 'w Allocator \<Rightarrow> RunOptions \<Rightarrow> string \<Rightarrow> DeviceInfo list \<Rightarrow> 'w
     \<Rightarrow> (run_error + RunInstance) \<times> 'w" where
  "create_and_start rt allocator opts instanceID devices w =
     (case rt_Create rt (new_CreateParams opts instanceID devices) w of
        (Inl err, w1) \<Rightarrow> (Inl (FailedToCreateInstance err), w1)
      | (Inr ref, w1) \<Rightarrow>
          (case rt_Start rt instanceID w1 of
             (Some err, w2) \<Rightarrow>
               (let (removed, w3) = rt_Remove rt instanceID w2;
                    (released, w4) = al_Release allocator instanceID w3
                in (Inl (FailedToStartInstance err), w4))
           | (None, w2) \<Rightarrow>
               (let instance = rt_deref rt ref w2
                in (Inr \<lparr>ri_ID = inst_ID instance, ri_ModelID = inst_ModelID instance,
                         ri_BackendType = ro_BackendType opts,
                         ri_DeploymentMode = ro_DeploymentMode opts,
                         ri_State = inst_State instance,
                         ri_CreatedAt = inst_CreatedAt instance,
                         ri_StartedAt = inst_StartedAt instance,
                         ri_Port = inst_Port instance, ri_Error = inst_Error instance,
                         ri_Config = Some (ro_AdditionalConfig opts)\<rparr>, w2))))"

text \<open>The type assertion \<^verbatim>\<open>opts.AdditionalConfig["device"].(string)\<close> with its test.\<close>

definition requested_devices :: "RunOptions \<Rightarrow> string option" where
  "requested_devices opts =
     (case ro_AdditionalConfig opts ''device'' of
        Some (AnyString deviceList) \<Rightarrow> if deviceList \<noteq> [] then Some deviceList else None
      | _ \<Rightarrow> None)"

text \<open>
  The device step of \<^verbatim>\<open>Run\<close>: the devices are either the ones the caller listed
  or one device from the allocator.
\<close>

definition obtain_devices ::
  "'w run_env \<Rightarrow> 'w Allocator \<Rightarrow> RunOptions \<Rightarrow> string \<Rightarrow> 'w
     \<Rightarrow> (run_error + DeviceInfo list) \<times> 'w" where
  "obtain_devices E allocator opts instanceID w =
     (case requested_devices opts of
        Some deviceList \<Rightarrow>
          (case parseDeviceList (env_TrimSpace E) deviceList of
             Inl err \<Rightarrow> (Inl (InvalidDeviceList err), w)
           | Inr deviceIndices \<Rightarrow>
               (select_devices (al_GetAllDevices allocator) deviceIndices, w))
      | None \<Rightarrow>
          (case al_Allocate allocator instanceID 1 w of
             (Inl err, w1) \<Rightarrow> (Inl (FailedToAllocateDevices err), w1)
           | (Inr allocatedDevices, w1) \<Rightarrow> (Inr (map to_runtime_device allocatedDevices), w1)))"

definition run_on_devices ::
  "'w run_env \<Rightarrow> ('w, 'r) Runtime \<Rightarrow> 'w Allocator \<Rightarrow> RunOptions \<Rightarrow> string \<Rightarrow> 'w
     \<Rightarrow> (run_error + RunInstance) \<times> 'w" where
  "run_on_devices E rt allocator opts instanceID w =
     (case obtain_devices E allocator opts instanceID w of
        (Inl err, w1) \<Rightarrow> (Inl err, w1)
      | (Inr devices, w1) \<Rightarrow> create_and_start rt allocator opts instanceID devices w1)"

text \<open>
  \<^verbatim>\<open>Run\<close>. The result is what it returns, the manager and the outside state after the
  call.
\<close>

definition Run ::
  "'w run_env \<Rightarrow> ('w, 'r) Manager \<Rightarrow> RunOptions option \<Rightarrow> 'w
     \<Rightarrow> (run_error + RunInstance) \<times> ('w, 'r) Manager \<times> 'w" where
  "Run E m opts_ptr w =
     (case opts_ptr of
        None \<Rightarrow> (Inl RunOptionsNil, m, w)
      | Some opts \<Rightarrow>
          (case (case Manager_List m w of
                   Inl err \<Rightarrow> None
                 | Inr instances \<Rightarrow> find_running (ro_ModelID opts) instances) of
             Some inst \<Rightarrow> (Inr (existing_RunInstance inst), m, w)
           | None \<Rightarrow>
               (let runtimeName = ro_BackendType opts @ ''-'' @ ro_DeploymentMode opts
                in case map_of (mg_runtimes m) runtimeName of
                     None \<Rightarrow> (Inl (RuntimeNotAvailable runtimeName), m, w)
                   | Some rt \<Rightarrow>
                       (let instanceID = ro_ModelID opts @ ''-'' @ itoa (env_now E)
                        in if ro_ModelPath opts = [] then (Inl ModelPathRequired, m, w)
                           else (case getOrCreateAllocator E m of
                                   (Inl err, m1) \<Rightarrow> (Inl (FailedToInitAllocator err), m1, w)
                                 | (Inr allocator, m1) \<Rightarrow>
                                     (let (r, w') = run_on_devices E rt allocator opts
                                                      instanceID w
                                      in (r, m1, w')))))))"

section \<open>The container engine behind the interfaces\<close>

text \<open>
  Modelled from the spec: the container backend (create, start, remove, list by label),
  the instance registry and the process-wide port allocator, whose code is not part of
  the sources at hand. A container carries the labels \<^verbatim>\<open>xw.instance_id\<close>,
  \<^verbatim>\<open>xw.model_id\<close>, \<^verbatim>\<open>xw.port\<close> and \<^verbatim>\<open>xw.device_indices\<close>. The three flags say
  whether the engine refuses the next create, start or remove; the clock stamps new
  instances.
\<close>

record Container =
  ct_InstanceID :: string
  ct_ModelID :: string
  ct_DeviceIndices :: "int list"
  ct_Port :: int
  ct_Running :: bool

record World =
  w_containers :: "Container list"
  w_instances :: "(string \<times> Instance) list"
  w_ports :: PortAllocator
  w_clock :: int
  w_create_fails :: bool
  w_start_fails :: bool
  w_remove_fails :: bool

text \<open>
  Modelled from the spec: \<^verbatim>\<open>create\<close> of the container backend together with the
  registration of the instance as \<^verbatim>\<open>created\<close>. The engine may refuse; an instance id
  that is already registered is refused as in \<^verbatim>\<open>Create\<close> of the Omni-Infer runtime. The
  reference returned is the instance id.
\<close>

definition docker_Create :: "string \<Rightarrow> CreateParams \<Rightarrow> World \<Rightarrow> (string + string) \<times> World" where
  "docker_Create name params w =
     (if cp_InstanceID params = [] then (Inl ''instance ID is required'', w)
      else if cp_InstanceID params \<in> set (map fst (w_instances w))
        then (Inl ''instance already exists'', w)
      else if w_create_fails w then (Inl ''container create failed'', w)
      else (Inr (cp_InstanceID params),
            w\<lparr>w_containers := w_containers w @
                  [\<lparr>ct_InstanceID = cp_InstanceID params, ct_ModelID = cp_ModelID params,
                    ct_DeviceIndices = map di_Index (cp_Devices params),
                    ct_Port = cp_Port params, ct_Running = False\<rparr>],
              w_instances := w_instances w @
                  [(cp_InstanceID params,
                    \<lparr>inst_ID = cp_InstanceID params, inst_RuntimeName = name,
                     inst_CreatedAt = w_clock w, inst_StartedAt = None,
                     inst_ModelID = cp_ModelID params, inst_Alias = cp_Alias params,
                     inst_ModelVersion = cp_ModelVersion params, inst_State = StateCreated,
                     inst_Port = cp_Port params,
                     inst_Endpoint = ''http://localhost:'' @ itoa (cp_Port params),
                     inst_Metadata = [(''backend_type'', cp_BackendType params),
                                      (''deployment_mode'', cp_DeploymentMode params)],
                     inst_Error = []\<rparr>)]\<rparr>))"

text \<open>
  Modelled from the spec: \<^verbatim>\<open>start\<close> of the container backend with the transition of
  the instance to \<^verbatim>\<open>running\<close> (the health probe is taken to succeed when the start
  does). A refused start changes nothing.
\<close>

definition docker_Start :: "string \<Rightarrow> World \<Rightarrow> string option \<times> World" where
  "docker_Start instanceID w =
     (if instanceID \<notin> set (map fst (w_instances w)) then (Some ''instance not found'', w)
      else if w_start_fails w then (Some ''container start failed'', w)
      else (None,
            w\<lparr>w_containers :=
                  map (\<lambda>c. if ct_InstanceID c = instanceID then c\<lparr>ct_Running := True\<rparr> else c)
                      (w_containers w),
              w_instances :=
                  map (\<lambda>(iid, inst). if iid = instanceID
                                     then (iid, inst\<lparr>inst_State := StateRunning,
                                                    inst_StartedAt := Some (w_clock w)\<rparr>)
                                     else (iid, inst))
                      (w_instances w)\<rparr>))"

text \<open>
  Modelled from the spec: \<^verbatim>\<open>remove\<close> of the container backend with the deletion of
  the registry entry. A refused remove changes nothing.
\<close>

definition docker_Remove :: "string \<Rightarrow> World \<Rightarrow> string option \<times> World" where
  "docker_Remove instanceID w =
     (if instanceID \<notin> set (map fst (w_instances w)) then (Some ''instance not found'', w)
      else if w_remove_fails w then (Some ''container remove failed'', w)
      else (None,
            w\<lparr>w_containers := filter (\<lambda>c. ct_InstanceID c \<noteq> instanceID) (w_containers w),
              w_instances := filter (\<lambda>(iid, inst). iid \<noteq> instanceID) (w_instances w)\<rparr>))"

text \<open>The zero value of \<^verbatim>\<open>Instance\<close>, for a reference that is not registered.\<close>

definition zero_Instance :: Instance where
  "zero_Instance =
     \<lparr>inst_ID = [], inst_RuntimeName = [], inst_CreatedAt = 0, inst_StartedAt = None,
      inst_ModelID = [], inst_Alias = [], inst_ModelVersion = [], inst_State = [],
      inst_Port = 0, inst_Endpoint = [], inst_Metadata = [], inst_Error = []\<rparr>"

text \<open>
  Modelled from the spec: a runtime on the container backend; its listing is the
  registry's snapshot.
\<close>

definition docker_runtime :: "string \<Rightarrow> (World, string) Runtime" where
  "docker_runtime name =
     \<lparr>rt_Create = docker_Create name,
      rt_Start = docker_Start,
      rt_Remove = docker_Remove,
      rt_List = (\<lambda>w. Inr (map snd (w_instances w))),
      rt_deref = (\<lambda>ref w. case map_of (w_instances w) ref of
                             None \<Rightarrow> zero_Instance
                           | Some inst \<Rightarrow> inst)\<rparr>"

text \<open>
  Modelled from the spec: the allocated set of the device allocator, the union of the
  \<^verbatim>\<open>xw.device_indices\<close> labels of the running containers.
\<close>

definition allocated_indices :: "World \<Rightarrow> int list" where
  "allocated_indices w = concat (map ct_DeviceIndices (filter ct_Running (w_containers w)))"

text \<open>
  Modelled from the spec: the distance of two logical devices (zero in the same topology
  box, the difference of the boxes otherwise, the difference of the indices when no
  topology is declared) and the cost of a set of devices, the sum over its pairs.
\<close>

definition dist :: "device_DeviceInfo \<Rightarrow> device_DeviceInfo \<Rightarrow> int" where
  "dist a b =
     (case (dv_Box a, dv_Box b) of
        (Some x, Some y) \<Rightarrow> if x = y then 0 else \<bar>x - y\<bar>
      | _ \<Rightarrow> \<bar>dv_Index a - dv_Index b\<bar>)"

fun cost :: "device_DeviceInfo list \<Rightarrow> int" where
  "cost [] = 0"
| "cost (a # rest) = sum_list (map (dist a) rest) + cost rest"

text \<open>
  Modelled from the spec: the tie-break of the selection policy, the lexicographic order
  on the index lists, and the choice of the best candidate by cost and then by that order.
\<close>

fun lex_less :: "int list \<Rightarrow> int list \<Rightarrow> bool" where
  "lex_less [] [] = False"
| "lex_less [] (y # ys) = True"
| "lex_less (x # xs) [] = False"
| "lex_less (x # xs) (y # ys) = (x < y \<or> (x = y \<and> lex_less xs ys))"

definition better :: "device_DeviceInfo list \<Rightarrow> device_DeviceInfo list \<Rightarrow> bool" where
  "better s t \<longleftrightarrow>
     cost s < cost t \<or> (cost s = cost t \<and> lex_less (map dv_Index s) (map dv_Index t))"

fun pick_best :: "device_DeviceInfo list list \<Rightarrow> device_DeviceInfo list option" where
  "pick_best [] = None"
| "pick_best (s # rest) =
     (case pick_best rest of
        None \<Rightarrow> Some s
      | Some t \<Rightarrow> if better t s then Some t else Some s)"

text \<open>
  Modelled from the spec: \<^verbatim>\<open>allocate(instance_id, n)\<close>. The free set is the inventory
  without the allocated indices; too few free devices is \<^verbatim>\<open>ResourceExhausted\<close>;
  otherwise the subset of \<open>n\<close> free devices with the least cost, the lexicographically
  first among equals. The allocator keeps no state of its own.
\<close>

definition spec_Allocate ::
  "device_DeviceInfo list \<Rightarrow> string \<Rightarrow> int \<Rightarrow> World \<Rightarrow> (string + device_DeviceInfo list) \<times> World" where
  "spec_Allocate inventory instanceID n w =
     (let free = filter (\<lambda>d. dv_Index d \<notin> set (allocated_indices w)) inventory
      in if n > int (length free) then (Inl ''ResourceExhausted'', w)
         else (case pick_best (filter (\<lambda>s. int (length s) = n) (subseqs free)) of
                 None \<Rightarrow> (Inl ''ResourceExhausted'', w)
               | Some s \<Rightarrow> (Inr s, w)))"

text \<open>
  Modelled from the spec: \<^verbatim>\<open>release(instance_id)\<close> is idempotent and writes nothing;
  the devices of an instance are free once its container is gone.
\<close>

definition spec_allocator :: "device_DeviceInfo list \<Rightarrow> World Allocator" where
  "spec_allocator inventory =
     \<lparr>al_GetAllDevices = inventory,
      al_Allocate = spec_Allocate inventory,
      al_Release = (\<lambda>instanceID w. (None, w))\<rparr>"



section \<open>Example data\<close>

text \<open>Three instances to run the resolution on: one stopped, two running.\<close>

definition example_instance :: "string \<Rightarrow> string \<Rightarrow> string \<Rightarrow> string \<Rightarrow> int \<Rightarrow> Instance" where
  "example_instance iid model alias st port =
     \<lparr>inst_ID = iid, inst_RuntimeName = ''vllm-docker'', inst_CreatedAt = 1700000000,
      inst_StartedAt = None, inst_ModelID = model, inst_Alias = alias,
      inst_ModelVersion = ''latest'', inst_State = st, inst_Port = port,
      inst_Endpoint = [], inst_Metadata = [], inst_Error = []\<rparr>"

definition example_instances :: "Instance list" where
  "example_instances =
     [example_instance ''a-1'' ''qwen2-7b'' ''qwen2-7b'' ''stopped'' 10881,
      example_instance ''b-2'' ''Qwen2-7B-Instruct'' [] ''running'' 10882,
      example_instance ''c-3'' ''qwen2'' ''QWEN2-7b'' ''running'' 10883]"

text \<open>
  A decoder for the examples: it knows one well-formed chat response, one response
  without choices and one user message made of a blank text block and a tool result.
\<close>

definition example_response :: OpenAIChatResponse where
  "example_response =
     \<lparr>cr_ID = [],
      cr_Choices = [\<lparr>ch_Index = 0,
                     ch_Message = \<lparr>msg_Role = ''assistant'', msg_Content = ContentString ''Hello'',
                                   msg_ToolCalls = [], msg_ToolCallID = []\<rparr>,
                     ch_FinishReason = ''stop''\<rparr>],
      cr_Usage = \<lparr>PromptTokens = 2, CompletionTokens = 1, TotalTokens = 3\<rparr>\<rparr>"

definition example_blocks :: "ContentBlock list" where
  "example_blocks =
     [empty_block\<lparr>cb_Type := ''text'', cb_Text := ''  ''\<rparr>,
      empty_block\<lparr>cb_Type := ''tool_result'', cb_ToolUseID := ''t1'', cb_Content := ''42''\<rparr>]"

definition example_lib :: json_lib where
  "example_lib =
     \<lparr>unmarshal_string = (\<lambda>raw. None),
      unmarshal_blocks = (\<lambda>raw. if raw = ''[blocks]'' then Some example_blocks else None),
      unmarshal_object = (\<lambda>raw. if raw = ''{}'' then Some (Some []) else None),
      unmarshal_response =
        (\<lambda>raw. if raw = ''{response}'' then Inr example_response
               else if raw = ''{}'' then Inr (example_response\<lparr>cr_Choices := []\<rparr>)
               else Inl ''invalid character''),
      marshal_object = (\<lambda>obj. ''{}'')\<rparr>"

definition example_unmarshal :: "string \<Rightarrow> string + unit" where
  "example_unmarshal raw = (if raw = ''{     }'' then Inr () else Inl ''invalid character'')"

text \<open>
  A creation request whose user environment and sandbox environment both set
  \<^verbatim>\<open>LOG_LEVEL\<close>; the sandbox also sets the device variable of an Ascend chip.
\<close>

definition example_device :: DeviceInfo where
  "example_device = \<lparr>di_Type = ''ascend'', di_Index = 0, di_PCIAddress = ''0000:01:00.0'',
                     di_ModelName = ''910B'', di_ConfigKey = ''ascend-910b'',
                     di_Properties = []\<rparr>"

definition example_params :: CreateParams where
  "example_params =
     \<lparr>cp_InstanceID = ''qwen2-7b-1700000000'', cp_ModelID = ''qwen2-7b'', cp_Alias = [],
      cp_ModelPath = ''/data/models/qwen2-7b'', cp_ModelVersion = ''latest'',
      cp_BackendType = ''omni-infer'', cp_DeploymentMode = ''docker'', cp_ServerName = [],
      cp_Devices = [example_device], cp_Port = 10881, cp_TensorParallel = 0,
      cp_Environment = [''LOG_LEVEL'' \<mapsto> ''debug'', ''HF_HOME'' \<mapsto> ''/cache''],
      cp_ExtraConfig = Map.empty\<rparr>"

definition example_sandbox :: DeviceSandbox where
  "example_sandbox =
     \<lparr>PrepareEnvironment =
        (\<lambda>devices. Inr [''LOG_LEVEL'' \<mapsto> ''info'', ''ASCEND_VISIBLE_DEVICES'' \<mapsto> ''0''])\<rparr>"

definition example_select :: "string \<Rightarrow> string + DeviceSandbox" where
  "example_select key = (if key = ''ascend-910b'' then Inr example_sandbox
                         else Inl ''no sandbox'')"

text \<open>
  An upstream stream of three chunks: a tool call that opens with the fragment
  \<^verbatim>\<open>{\<close>, a chunk that carries the finish reason, and one more fragment of the same
  tool call after it. The decoder maps the payloads \<^verbatim>\<open>c1\<close>, \<^verbatim>\<open>c2\<close>, \<^verbatim>\<open>c3\<close> to
  them.
\<close>

definition tool_chunk :: "string \<Rightarrow> string \<Rightarrow> string \<Rightarrow> OpenAIChatChunk" where
  "tool_chunk tid name args =
     \<lparr>ck_ID = ''chatcmpl-1'',
      ck_Choices = [\<lparr>cc_Index = 0,
                     cc_Delta = \<lparr>cd_Role = [], cd_Content = None,
                                 cd_ToolCalls = [\<lparr>tc_ID = tid, tc_Type = ''function'',
                                                  tc_Function = \<lparr>fc_Name = name,
                                                                  fc_Arguments = args\<rparr>,
                                                  tc_Index = Some 0\<rparr>]\<rparr>,
                     cc_FinishReason = None\<rparr>],
      ck_Usage = None\<rparr>"

definition finish_chunk :: "string \<Rightarrow> OpenAIChatChunk" where
  "finish_chunk reason =
     \<lparr>ck_ID = ''chatcmpl-1'',
      ck_Choices = [\<lparr>cc_Index = 0,
                     cc_Delta = \<lparr>cd_Role = [], cd_Content = None, cd_ToolCalls = []\<rparr>,
                     cc_FinishReason = Some reason\<rparr>],
      ck_Usage = None\<rparr>"

definition example_unmarshal_chunk :: "string \<Rightarrow> OpenAIChatChunk option" where
  "example_unmarshal_chunk payload =
     (if payload = ''c1'' then Some (tool_chunk ''tc1'' ''sum'' ''{'')
      else if payload = ''c2'' then Some (finish_chunk ''tool_calls'')
      else if payload = ''c3'' then Some (tool_chunk [] [] ''}'')
      else None)"

definition late_fragment_events :: "sse_event list" where
  "late_fragment_events =
     [message_start ''msg_0123456789ab'' ''m'',
      content_block_start 0 text_block,
      ping,
      content_block_stop 0,
      content_block_start 1 (tool_use_block ''tc1'' ''sum''),
      content_block_delta 1 (input_json_delta ''{''),
      content_block_stop 1,
      message_delta ''tool_use'' 0,
      message_stop,
      done_marker,
      content_block_delta 1 (input_json_delta ''}'')]"

text \<open>
  A host with two accelerators and one running instance of \<^verbatim>\<open>qwen2-7b\<close> on device 0
  and port 10881, a manager with the \<^verbatim>\<open>vllm-docker\<close> runtime, and run options for a
  model, a device list and a port.
\<close>

definition example_inventory :: "device_DeviceInfo list" where
  "example_inventory =
     [\<lparr>dv_Type = ''ascend'', dv_Index = 0, dv_BusAddress = ''0000:01:00.0'',
       dv_ModelName = ''910B'', dv_Properties = [], dv_Box = Some 0\<rparr>,
      \<lparr>dv_Type = ''ascend'', dv_Index = 1, dv_BusAddress = ''0000:02:00.0'',
       dv_ModelName = ''910B'', dv_Properties = [], dv_Box = Some 0\<rparr>]"

definition example_running :: Instance where
  "example_running =
     \<lparr>inst_ID = ''qwen2-7b-1700000000'', inst_RuntimeName = ''vllm-docker'',
      inst_CreatedAt = 1700000000, inst_StartedAt = Some 1700000000,
      inst_ModelID = ''qwen2-7b'', inst_Alias = [], inst_ModelVersion = ''latest'',
      inst_State = ''running'', inst_Port = 10881,
      inst_Endpoint = ''http://localhost:10881'',
      inst_Metadata = [(''backend_type'', ''vllm''), (''deployment_mode'', ''docker'')],
      inst_Error = []\<rparr>"

definition example_world :: World where
  "example_world =
     \<lparr>w_containers = [\<lparr>ct_InstanceID = ''qwen2-7b-1700000000'', ct_ModelID = ''qwen2-7b'',
                        ct_DeviceIndices = [0], ct_Port = 10881, ct_Running = True\<rparr>],
      w_instances = [(''qwen2-7b-1700000000'', example_running)],
      w_ports = \<lparr>allocated = {10881}, minPort = 10881, maxPort = 11881\<rparr>,
      w_clock = 1700000100,
      w_create_fails = False, w_start_fails = False, w_remove_fails = False\<rparr>"

definition example_manager :: "(World, string) Manager" where
  "example_manager =
     \<lparr>mg_runtimes = [(''vllm-docker'', docker_runtime ''vllm-docker'')],
      mg_deviceAllocator = Some (spec_allocator example_inventory)\<rparr>"

definition example_run_env :: "World run_env" where
  "example_run_env =
     \<lparr>env_TrimSpace = ascii_TrimSpace,
      env_NewAllocator = Inr (spec_allocator example_inventory),
      env_now = 1700000100\<rparr>"

definition example_opts :: "string \<Rightarrow> string \<Rightarrow> int \<Rightarrow> RunOptions" where
  "example_opts model deviceList port =
     \<lparr>ro_ModelID = model, ro_ModelPath = ''/data/models'', ro_BackendType = ''vllm'',
      ro_DeploymentMode = ''docker'', ro_Port = port,
      ro_AdditionalConfig = [''device'' \<mapsto> AnyString deviceList]\<rparr>"



section \<open>Properties of the port allocator\<close>

declare GetFreePort_from.simps [simp del]

lemma GetFreePort_from_none:
  "(\<forall>q. p \<le> q \<and> q \<le> maxPort pa \<longrightarrow> \<not> leasable listen_ok pa q) \<Longrightarrow>
   GetFreePort_from listen_ok pa p = (Inl (NoAvailablePorts (minPort pa) (maxPort pa)), pa)"
proof (induction listen_ok pa p rule: GetFreePort_from.induct)
  case (1 listen_ok pa p)
  show ?case
  proof (cases "p \<le> maxPort pa")
    case False
    then show ?thesis by (subst GetFreePort_from.simps) simp
  next
    case True
    from "1.prems" True have np: "\<not> leasable listen_ok pa p" by simp
    have rest: "\<forall>q. p + 1 \<le> q \<and> q \<le> maxPort pa \<longrightarrow> \<not> leasable listen_ok pa q"
      using "1.prems" by simp
    show ?thesis
    proof (cases "p \<in> allocated pa")
      case True
      with \<open>p \<le> maxPort pa\<close> "1.IH"(1) rest show ?thesis
        by (subst GetFreePort_from.simps) simp
    next
      case False
      with np have nl: "\<not> isPortAvailable listen_ok p"
        by (simp add: leasable_def isPortAvailable_def)
      with False \<open>p \<le> maxPort pa\<close> "1.IH"(2) rest show ?thesis
        by (subst GetFreePort_from.simps) simp
    qed
  qed
qed

lemma GetFreePort_from_first:
  "p \<le> r \<Longrightarrow> r \<le> maxPort pa \<Longrightarrow> leasable listen_ok pa r \<Longrightarrow>
   (\<forall>q. p \<le> q \<and> q < r \<longrightarrow> \<not> leasable listen_ok pa q) \<Longrightarrow>
   GetFreePort_from listen_ok pa p = (Inr r, pa\<lparr>allocated := insert r (allocated pa)\<rparr>)"
proof (induction listen_ok pa p rule: GetFreePort_from.induct)
  case (1 listen_ok pa p)
  from "1.prems" have pm: "p \<le> maxPort pa" by simp
  show ?case
  proof (cases "p = r")
    case True
    with "1.prems"(3) pm show ?thesis
      by (subst GetFreePort_from.simps) (simp add: leasable_def isPortAvailable_def)
  next
    case False
    with "1.prems" have lt: "p < r" by simp
    with "1.prems"(4) have np: "\<not> leasable listen_ok pa p" by simp
    have rest: "\<forall>q. p + 1 \<le> q \<and> q < r \<longrightarrow> \<not> leasable listen_ok pa q"
      using "1.prems"(4) by simp
    from lt have le: "p + 1 \<le> r" by simp
    show ?thesis
    proof (cases "p \<in> allocated pa")
      case True
      with pm "1.IH"(1)[OF pm True le "1.prems"(2,3) rest] show ?thesis
        by (subst GetFreePort_from.simps) simp
    next
      case False
      with np have nl: "\<not> isPortAvailable listen_ok p"
        by (simp add: leasable_def isPortAvailable_def)
      with False pm "1.IH"(2)[OF pm False nl le "1.prems"(2,3) rest] show ?thesis
        by (subst GetFreePort_from.simps) simp
    qed
  qed
qed

text \<open>
  C4. \<^verbatim>\<open>GetFreePort\<close> returns the lowest port of the allocator's range that is not
  cached as leased and that the listen probe can bind, and marks exactly that port as
  leased; when no port of the range is leasable it returns the range error and leaves the
  allocator as it was. Every call does one or the other.
\<close>

theorem GetFreePort_lowest_leasable:
  assumes "maxPort pa < 2 ^ 63 - 1"
  shows "(GetFreePort listen_ok pa = (Inr r, pa') \<longleftrightarrow>
            minPort pa \<le> r \<and> r \<le> maxPort pa \<and> leasable listen_ok pa r \<and>
            (\<forall>q. minPort pa \<le> q \<and> q < r \<longrightarrow> \<not> leasable listen_ok pa q) \<and>
            pa' = pa\<lparr>allocated := insert r (allocated pa)\<rparr>)
       \<and> (GetFreePort listen_ok pa = (Inl (NoAvailablePorts (minPort pa) (maxPort pa)), pa) \<longleftrightarrow>
            (\<forall>q. minPort pa \<le> q \<and> q \<le> maxPort pa \<longrightarrow> \<not> leasable listen_ok pa q))
       \<and> ((\<exists>q. GetFreePort listen_ok pa =
                  (Inr q, pa\<lparr>allocated := insert q (allocated pa)\<rparr>)) \<or>
           GetFreePort listen_ok pa = (Inl (NoAvailablePorts (minPort pa) (maxPort pa)), pa))"
proof -
  let ?P = "\<lambda>q. minPort pa \<le> q \<and> q \<le> maxPort pa \<and> leasable listen_ok pa q"
  have none: "GetFreePort listen_ok pa = (Inl (NoAvailablePorts (minPort pa) (maxPort pa)), pa)"
    if "\<forall>q. \<not> ?P q"
    using that GetFreePort_from_none[of "minPort pa" pa listen_ok]
    by (simp add: GetFreePort_def)
  have first: "GetFreePort listen_ok pa = (Inr r, pa\<lparr>allocated := insert r (allocated pa)\<rparr>)"
    if "?P r" "\<forall>q. minPort pa \<le> q \<and> q < r \<longrightarrow> \<not> leasable listen_ok pa q" for r
    using that GetFreePort_from_first[of "minPort pa" r pa listen_ok]
    by (simp add: GetFreePort_def)
  have least: "\<exists>r. ?P r \<and> (\<forall>q. minPort pa \<le> q \<and> q < r \<longrightarrow> \<not> leasable listen_ok pa q)"
    if ex: "\<exists>q. ?P q"
  proof -
    from ex obtain q0 where q0: "?P q0" by blast
    define S where "S = {n. ?P (minPort pa + int n)}"
    have "nat (q0 - minPort pa) \<in> S" using q0 by (simp add: S_def)
    then have ne: "S \<noteq> {}" by blast
    define n where "n = (LEAST n. n \<in> S)"
    have nS: "n \<in> S" unfolding n_def using ne by (metis LeastI ex_in_conv)
    have nmin: "\<And>k. k \<in> S \<Longrightarrow> n \<le> k" unfolding n_def by (simp add: Least_le)
    let ?r = "minPort pa + int n"
    have "?P ?r" using nS by (simp add: S_def)
    moreover have "\<not> leasable listen_ok pa q" if q: "minPort pa \<le> q" "q < ?r" for q
    proof
      assume l: "leasable listen_ok pa q"
      from q \<open>?P ?r\<close> have "q \<le> maxPort pa" by simp
      with q l have "nat (q - minPort pa) \<in> S" by (simp add: S_def)
      from nmin[OF this] q show False by simp
    qed
    ultimately show ?thesis by blast
  qed
  have A: "GetFreePort listen_ok pa = (Inr r, pa') \<longleftrightarrow>
            minPort pa \<le> r \<and> r \<le> maxPort pa \<and> leasable listen_ok pa r \<and>
            (\<forall>q. minPort pa \<le> q \<and> q < r \<longrightarrow> \<not> leasable listen_ok pa q) \<and>
            pa' = pa\<lparr>allocated := insert r (allocated pa)\<rparr>" (is "?L \<longleftrightarrow> ?R")
  proof
    assume ?R
    then show ?L using first[of r] by simp
  next
    assume L: ?L
    show ?R
    proof (cases "\<exists>q. ?P q")
      case False
      with none L show ?thesis by simp
    next
      case True
      from least[OF True] obtain r0 where
        r0: "?P r0" "\<forall>q. minPort pa \<le> q \<and> q < r0 \<longrightarrow> \<not> leasable listen_ok pa q"
        by blast
      from first[OF r0] L have "r = r0" "pa' = pa\<lparr>allocated := insert r0 (allocated pa)\<rparr>"
        by simp_all
      with r0 show ?thesis by simp
    qed
  qed
  have B: "GetFreePort listen_ok pa = (Inl (NoAvailablePorts (minPort pa) (maxPort pa)), pa) \<longleftrightarrow>
            (\<forall>q. minPort pa \<le> q \<and> q \<le> maxPort pa \<longrightarrow> \<not> leasable listen_ok pa q)"
    (is "?L \<longleftrightarrow> ?R")
  proof
    assume ?R
    then show ?L using none by blast
  next
    assume L: ?L
    show ?R
    proof (rule ccontr)
      assume "\<not> ?R"
      then have "\<exists>q. ?P q" by blast
      from least[OF this] obtain r0 where
        r0: "?P r0" "\<forall>q. minPort pa \<le> q \<and> q < r0 \<longrightarrow> \<not> leasable listen_ok pa q"
        by blast
      from first[OF r0] L show False by simp
    qed
  qed
  have C: "(\<exists>q. GetFreePort listen_ok pa =
                  (Inr q, pa\<lparr>allocated := insert q (allocated pa)\<rparr>)) \<or>
           GetFreePort listen_ok pa = (Inl (NoAvailablePorts (minPort pa) (maxPort pa)), pa)"
  proof (cases "\<exists>q. ?P q")
    case False
    with none show ?thesis by simp
  next
    case True
    from least[OF True] obtain r0 where
      r0: "?P r0" "\<forall>q. minPort pa \<le> q \<and> q < r0 \<longrightarrow> \<not> leasable listen_ok pa q"
      by blast
    from first[OF r0] show ?thesis by blast
  qed
  from A B C show ?thesis by blast
qed

theorem GetFreePort_lowest_leasable_witness:
  "GetFreePort (\<lambda>p. p \<noteq> 10882) (MarkPortUsed GetGlobalPortAllocator 10881) =
     (Inr 10883, \<lparr>allocated = {10883, 10881}, minPort = 10881, maxPort = 11881\<rparr>)"
proof -
  let ?pa = "\<lparr>allocated = {10881::int}, minPort = 10881, maxPort = 11881\<rparr>"
  have pa: "MarkPortUsed GetGlobalPortAllocator 10881 = ?pa"
    by (simp add: MarkPortUsed_def GetGlobalPortAllocator_def NewPortAllocator_def)
  have h: "maxPort ?pa < 2 ^ 63 - 1" by simp
  have low: "\<forall>q. minPort ?pa \<le> q \<and> q < 10883 \<longrightarrow> \<not> leasable (\<lambda>p. p \<noteq> 10882) ?pa q"
    by (auto simp: leasable_def)
  from GetFreePort_lowest_leasable[OF h, of "\<lambda>p. p \<noteq> 10882" 10883
      "\<lparr>allocated = {10883, 10881}, minPort = 10881, maxPort = 11881\<rparr>"] low
  show ?thesis unfolding pa by (simp add: leasable_def)
qed

section \<open>Properties of model resolution\<close>

lemma exact_pass_find:
  "exact_pass ToLower (ToLower modelName) instances =
     find (exact_match ToLower modelName) (running_instances instances)"
  by (induction instances) (simp_all add: running_instances_def exact_match_def)

lemma prefix_pass_find:
  "prefix_pass ToLower (ToLower modelName) instances =
     find (prefix_match ToLower modelName) (running_instances instances)"
  by (induction instances)
     (simp_all add: running_instances_def prefix_match_def HasPrefix_def Let_def)

text \<open>
  C5. \<^verbatim>\<open>FindInstanceByModel\<close> resolves a model name in two passes over the running
  instances of the listing, comparing lower-cased names: the first instance whose alias
  (or model id, when the alias is empty) equals the name; failing that, the first one
  whose alias is a prefix of the name or has the name as a prefix; failing both, the error
  that no running instance serves the model. Two names with the same lower-case form
  resolve to the same instance.
\<close>

theorem FindInstanceByModel_two_passes:
  "FindInstanceByModel ToLower (Inr instances) modelName =
     (case resolve_model ToLower instances modelName of
        Some i \<Rightarrow> Inr i
      | None \<Rightarrow> Inl (NoRunningInstance modelName))
   \<and> (ToLower modelName = ToLower modelName' \<longrightarrow>
        (FindInstanceByModel ToLower (Inr instances) modelName = Inr i \<longleftrightarrow>
         FindInstanceByModel ToLower (Inr instances) modelName' = Inr i))"
proof -
  have eq: "FindInstanceByModel ToLower (Inr instances) n =
     (case resolve_model ToLower instances n of
        Some i \<Rightarrow> Inr i
      | None \<Rightarrow> Inl (NoRunningInstance n))" for n
    by (simp add: FindInstanceByModel_def resolve_model_def exact_pass_find prefix_pass_find
        split: option.splits)
  have same: "resolve_model ToLower instances modelName = resolve_model ToLower instances modelName'"
    if l: "ToLower modelName = ToLower modelName'"
  proof -
    have em: "exact_match ToLower modelName = exact_match ToLower modelName'"
      using l by (intro ext) (simp add: exact_match_def)
    have pm: "prefix_match ToLower modelName = prefix_match ToLower modelName'"
      using l by (intro ext) (simp add: prefix_match_def)
    show ?thesis unfolding resolve_model_def em pm by (rule refl)
  qed
  show ?thesis
  proof (intro conjI impI)
    show "FindInstanceByModel ToLower (Inr instances) modelName =
     (case resolve_model ToLower instances modelName of
        Some i \<Rightarrow> Inr i
      | None \<Rightarrow> Inl (NoRunningInstance modelName))" by (rule eq)
  next
    assume "ToLower modelName = ToLower modelName'"
    from same[OF this] show "FindInstanceByModel ToLower (Inr instances) modelName = Inr i \<longleftrightarrow>
         FindInstanceByModel ToLower (Inr instances) modelName' = Inr i"
      by (simp add: eq split: option.splits)
  qed
qed

theorem FindInstanceByModel_two_passes_witness:
  "FindInstanceByModel ascii_ToLower (Inr example_instances) ''qwen2-7B'' =
     Inr (example_instance ''c-3'' ''qwen2'' ''QWEN2-7b'' ''running'' 10883)
   \<and> FindInstanceByModel ascii_ToLower (Inr example_instances) ''Qwen2'' =
     Inr (example_instance ''b-2'' ''Qwen2-7B-Instruct'' [] ''running'' 10882)
   \<and> FindInstanceByModel ascii_ToLower (Inr example_instances) ''llama'' =
     Inl (NoRunningInstance ''llama'')"
  by (simp add: FindInstanceByModel_two_passes [THEN conjunct1] resolve_model_def
      running_instances_def exact_match_def prefix_match_def alias_or_model_def
      ascii_ToLower_def example_instances_def example_instance_def)

section \<open>Properties of token counting\<close>

theorem HandleCountTokens_ceil_counterexample:
  "HandleCountTokens example_unmarshal \<lparr>req_Method = ''POST'', req_Body = Inr ''{     }''\<rparr>
     = \<lparr>resp_status = 200, resp_body = TokenCountResponse 1\<rparr>
   \<and> HandleCountTokens example_unmarshal \<lparr>req_Method = ''POST'', req_Body = Inr ''{     }''\<rparr>
     \<noteq> \<lparr>resp_status = 200,
        resp_body = TokenCountResponse (ceil_quarter (int (length ''{     }'')))\<rparr>"
  by (simp add: HandleCountTokens_def example_unmarshal_def ceil_quarter_def)

text \<open>
  C7 (amended). For a POST request whose body of \<open>L\<close> bytes is read and decoded without
  error, \<^verbatim>\<open>HandleCountTokens\<close> answers 200 with \<open>input_tokens\<close> the larger of 1 and
  \<open>L\<close> divided by four rounded down. That number is \<open>L / 4\<close> rounded up exactly when
  \<open>L\<close> is positive and is at most four or a multiple of four.
\<close>

theorem HandleCountTokens_floor_quarter:
  assumes "req_Method r = ''POST''"
    and "req_Body r = Inr bodyBytes"
    and "unmarshal bodyBytes = Inr req"
  shows "HandleCountTokens unmarshal r =
           \<lparr>resp_status = 200,
            resp_body = TokenCountResponse (max 1 (int (length bodyBytes) div 4))\<rparr>
       \<and> (max 1 (int (length bodyBytes) div 4) = ceil_quarter (int (length bodyBytes)) \<longleftrightarrow>
            0 < length bodyBytes \<and> (length bodyBytes \<le> 4 \<or> 4 dvd length bodyBytes))"
proof
  show "HandleCountTokens unmarshal r =
           \<lparr>resp_status = 200,
            resp_body = TokenCountResponse (max 1 (int (length bodyBytes) div 4))\<rparr>"
    using assms by (simp add: HandleCountTokens_def Let_def max_def)
next
  define l where "l = int (length bodyBytes)"
  have l0: "0 \<le> l" by (simp add: l_def)
  have "max 1 (l div 4) = ceil_quarter l \<longleftrightarrow> 0 < l \<and> (l \<le> 4 \<or> 4 dvd l)"
    using l0 unfolding ceil_quarter_def max_def by presburger
  moreover have "4 dvd l \<longleftrightarrow> 4 dvd length bodyBytes"
    unfolding l_def by presburger
  ultimately show "max 1 (int (length bodyBytes) div 4) = ceil_quarter (int (length bodyBytes)) \<longleftrightarrow>
            0 < length bodyBytes \<and> (length bodyBytes \<le> 4 \<or> 4 dvd length bodyBytes)"
    by (simp add: l_def)
qed

theorem HandleCountTokens_floor_quarter_witness:
  "HandleCountTokens example_unmarshal \<lparr>req_Method = ''POST'', req_Body = Inr ''{     }''\<rparr>
     = \<lparr>resp_status = 200, resp_body = TokenCountResponse 1\<rparr>
   \<and> max 1 (int (length ''{     }'') div 4) \<noteq> ceil_quarter (int (length ''{     }''))"
proof -
  have "HandleCountTokens example_unmarshal \<lparr>req_Method = ''POST'', req_Body = Inr ''{     }''\<rparr>
     = \<lparr>resp_status = 200, resp_body = TokenCountResponse 1\<rparr>"
    using HandleCountTokens_floor_quarter [of "\<lparr>req_Method = ''POST'', req_Body = Inr ''{     }''\<rparr>"
      "''{     }''" example_unmarshal "()", THEN conjunct1]
    by (simp add: example_unmarshal_def)
  moreover have "max 1 (int (length ''{     }'') div 4) \<noteq> ceil_quarter (int (length ''{     }''))"
    by (simp add: ceil_quarter_def)
  ultimately show ?thesis by blast
qed

section \<open>Properties of the format translator\<close>

lemma buildContentBlocks_nonempty: "buildContentBlocks lib tool_hex msg \<noteq> []"
  by (simp add: buildContentBlocks_def Let_def)

text \<open>
  C9. \<^verbatim>\<open>ConvertResponse\<close> returns an error, and no response, for a body that does not
  decode and for a decoded body whose list of choices is empty (absent or \<^verbatim>\<open>[]\<close>); it
  returns a response exactly when the body decodes with at least one choice, and that
  response is built from the first choice.
\<close>

theorem ConvertResponse_needs_choice:
  "(unmarshal_response lib body = Inl err \<longrightarrow>
      ConvertResponse lib msg_hex tool_hex body requestModel = Inl (ParsingOpenAIResponse err))
   \<and> (unmarshal_response lib body = Inr resp \<and> cr_Choices resp = [] \<longrightarrow>
      ConvertResponse lib msg_hex tool_hex body requestModel = Inl NoChoices)
   \<and> ((\<exists>r. ConvertResponse lib msg_hex tool_hex body requestModel = Inr r) \<longleftrightarrow>
      (\<exists>resp'. unmarshal_response lib body = Inr resp' \<and> cr_Choices resp' \<noteq> []))
   \<and> (ConvertResponse lib msg_hex tool_hex body requestModel = Inr r \<longrightarrow>
      (\<exists>resp' choice rest. unmarshal_response lib body = Inr resp' \<and>
         cr_Choices resp' = choice # rest \<and>
         mr_Content r = buildContentBlocks lib tool_hex (ch_Message choice) \<and>
         mr_StopReason r = mapFinishReason (ch_FinishReason choice)))"
  by (auto simp: ConvertResponse_def split: sum.splits list.splits)

theorem ConvertResponse_needs_choice_witness:
  "ConvertResponse example_lib ''0123456789ab'' (\<lambda>i. ''ba9876543210'') ''not json'' ''m''
     = Inl (ParsingOpenAIResponse ''invalid character'')
   \<and> ConvertResponse example_lib ''0123456789ab'' (\<lambda>i. ''ba9876543210'') ''{}'' ''m''
     = Inl NoChoices
   \<and> (\<exists>r. ConvertResponse example_lib ''0123456789ab'' (\<lambda>i. ''ba9876543210'') ''{response}'' ''m''
          = Inr r)"
proof -
  have 1: "unmarshal_response example_lib ''not json'' = Inl ''invalid character''"
    by (simp add: example_lib_def)
  have 2: "unmarshal_response example_lib ''{}'' = Inr (example_response\<lparr>cr_Choices := []\<rparr>)
           \<and> cr_Choices (example_response\<lparr>cr_Choices := []\<rparr>) = []"
    by (simp add: example_lib_def)
  have 3: "\<exists>resp'. unmarshal_response example_lib ''{response}'' = Inr resp' \<and> cr_Choices resp' \<noteq> []"
    by (simp add: example_lib_def example_response_def)
  show ?thesis
    using 1 2 3
      ConvertResponse_needs_choice [of example_lib "''not json''" "''invalid character''"
        "''0123456789ab''" "\<lambda>i. ''ba9876543210''" "''m''"]
      ConvertResponse_needs_choice [of example_lib "''{}''" _
        "''0123456789ab''" "\<lambda>i. ''ba9876543210''" "''m''" "example_response\<lparr>cr_Choices := []\<rparr>"]
      ConvertResponse_needs_choice [of example_lib "''{response}''" _
        "''0123456789ab''" "\<lambda>i. ''ba9876543210''" "''m''"]
    by blast
qed

text \<open>
  C10. A user message whose content decodes to blocks with at least one
  \<^verbatim>\<open>tool_result\<close> among them is converted to exactly one message: its role is
  \<^verbatim>\<open>user\<close>, it has no tool calls, and its content is a string that is never empty: the
  trimmed concatenation of the text blocks and the tool-result sections, or the
  placeholder \<^verbatim>\<open>...\<close> when that is empty. \<^verbatim>\<open>convertUserToolResults\<close> builds that
  message from any list of blocks.
\<close>

theorem tool_result_message_never_empty:
  assumes "m_Role msg = ''user''"
    and "unmarshal_string lib (m_Content msg) = None"
    and "unmarshal_blocks lib (m_Content msg) = Some blocks"
    and "\<exists>b \<in> set blocks. cb_Type b = ''tool_result''"
  shows "(\<exists>text. convertOneMessage TrimSpace lib msg =
                  Inr [\<lparr>msg_Role = ''user'', msg_Content = ContentString text,
                        msg_ToolCalls = [], msg_ToolCallID = []\<rparr>]
           \<and> text \<noteq> []
           \<and> text = (if TrimSpace (tool_results_text lib blocks) = [] then ''...''
                      else TrimSpace (tool_results_text lib blocks)))
       \<and> convertUserToolResults TrimSpace lib blocks' =
           Inr [\<lparr>msg_Role = ''user'',
                 msg_Content = ContentString
                   (if TrimSpace (tool_results_text lib blocks') = [] then ''...''
                    else TrimSpace (tool_results_text lib blocks')),
                 msg_ToolCalls = [], msg_ToolCallID = []\<rparr>]"
proof -
  have direct: "convertUserToolResults TrimSpace lib bs =
           Inr [\<lparr>msg_Role = ''user'',
                 msg_Content = ContentString
                   (if TrimSpace (tool_results_text lib bs) = [] then ''...''
                    else TrimSpace (tool_results_text lib bs)),
                 msg_ToolCalls = [], msg_ToolCallID = []\<rparr>]" for bs
    by (simp add: convertUserToolResults_def user_message_def Let_def)
  from assms(4) have "list_ex (\<lambda>b. cb_Type b = ''tool_result'') blocks"
    by (simp add: list_ex_iff)
  then have "convertUserBlocks TrimSpace lib blocks = convertUserToolResults TrimSpace lib blocks"
    by (simp add: convertUserBlocks_def)
  with assms(1-3) have
    "convertOneMessage TrimSpace lib msg = convertUserToolResults TrimSpace lib blocks"
    by (simp add: convertOneMessage_def)
  then have "\<exists>text. convertOneMessage TrimSpace lib msg =
                  Inr [\<lparr>msg_Role = ''user'', msg_Content = ContentString text,
                        msg_ToolCalls = [], msg_ToolCallID = []\<rparr>]
           \<and> text \<noteq> []
           \<and> text = (if TrimSpace (tool_results_text lib blocks) = [] then ''...''
                      else TrimSpace (tool_results_text lib blocks))"
    by (simp add: direct)
  with direct [of blocks'] show ?thesis by blast
qed

theorem tool_result_message_never_empty_witness:
  "convertOneMessage ascii_TrimSpace example_lib \<lparr>m_Role = ''user'', m_Content = ''[blocks]''\<rparr>
     = Inr [\<lparr>msg_Role = ''user'',
             msg_Content = ContentString (''Tool result for t1:'' @ newline @ ''42''),
             msg_ToolCalls = [], msg_ToolCallID = []\<rparr>]
   \<and> convertUserToolResults ascii_TrimSpace example_lib
       [empty_block\<lparr>cb_Type := ''text'', cb_Text := ''  ''\<rparr>]
     = Inr [\<lparr>msg_Role = ''user'', msg_Content = ContentString ''...'',
             msg_ToolCalls = [], msg_ToolCallID = []\<rparr>]"
proof -
  let ?msg = "\<lparr>m_Role = ''user'', m_Content = ''[blocks]''\<rparr>"
  let ?blank = "[empty_block\<lparr>cb_Type := ''text'', cb_Text := ''  ''\<rparr>]"
  have h1: "m_Role ?msg = ''user''" by simp
  have h2: "unmarshal_string example_lib (m_Content ?msg) = None"
    by (simp add: example_lib_def)
  have h3: "unmarshal_blocks example_lib (m_Content ?msg) = Some example_blocks"
    by (simp add: example_lib_def)
  have h4: "\<exists>b \<in> set example_blocks. cb_Type b = ''tool_result''"
    by (simp add: example_blocks_def empty_block_def)
  have ex: "extractToolResultContent example_lib ''42'' = ''42''"
    by (simp add: extractToolResultContent_def example_lib_def)
  have joined: "tool_results_text example_lib example_blocks =
      ''  '' @ newline @ ''Tool result for t1:'' @ newline @ ''42'' @ newline"
    by (simp add: example_blocks_def empty_block_def ex)
  have trim: "ascii_TrimSpace (tool_results_text example_lib example_blocks) =
      ''Tool result for t1:'' @ newline @ ''42''"
    unfolding joined by (simp add: ascii_TrimSpace_def ascii_space_def newline_def)
  have blank: "ascii_TrimSpace (tool_results_text example_lib ?blank) = []"
    by (simp add: empty_block_def ascii_TrimSpace_def ascii_space_def newline_def)
  from tool_result_message_never_empty [OF h1 h2 h3 h4, of ascii_TrimSpace, THEN conjunct1]
  have one: "convertOneMessage ascii_TrimSpace example_lib ?msg
     = Inr [\<lparr>msg_Role = ''user'',
             msg_Content = ContentString (''Tool result for t1:'' @ newline @ ''42''),
             msg_ToolCalls = [], msg_ToolCallID = []\<rparr>]"
    unfolding trim by (auto simp: newline_def)
  from tool_result_message_never_empty [OF h1 h2 h3 h4, of ascii_TrimSpace ?blank,
      THEN conjunct2]
  have two: "convertUserToolResults ascii_TrimSpace example_lib ?blank
     = Inr [\<lparr>msg_Role = ''user'', msg_Content = ContentString ''...'',
             msg_ToolCalls = [], msg_ToolCallID = []\<rparr>]"
    unfolding blank by simp
  from one two show ?thesis by simp
qed

section \<open>Properties of the container environment\<close>

declare digits.simps [simp del]

lemma digits_small: "n < 10 \<Longrightarrow> digits n = [digit_char n]"
  by (subst digits.simps) simp

lemma digits_large: "10 \<le> n \<Longrightarrow> digits n = digits (n div 10) @ [digit_char (n mod 10)]"
  by (subst digits.simps) simp

theorem Create_env_user_key_counterexample:
  "env_lookup (Create_env example_select (\<lambda>params env. env) {} (Some example_params))
     ''LOG_LEVEL'' = Some ''info''
   \<and> cp_Environment example_params ''LOG_LEVEL'' = Some ''debug''
   \<and> ''LOG_LEVEL'' \<noteq> ''ASCEND_VISIBLE_DEVICES''"
  by (simp add: Create_env_def env_lookup_def example_params_def example_select_def
      example_sandbox_def example_device_def merge_env_def Let_def)

text \<open>
  C8 (amended). When \<^verbatim>\<open>Create\<close> gets as far as building the environment, the result
  is layered: the sandbox's variables are copied over the user's, so on every collision
  between the two the sandbox value wins, for any key; the template parameters are applied
  to that map; and the canonical variables are written last, over everything:
  \<^verbatim>\<open>MODEL_PATH\<close> is \<^verbatim>\<open>/mnt/model\<close>, \<^verbatim>\<open>MODEL_NAME\<close> the alias (the model id when
  there is no alias), \<^verbatim>\<open>TENSOR_PARALLEL_SIZE\<close> the explicit value or the number of
  devices, \<^verbatim>\<open>SERVER_PORT\<close> the port or 8000. \<^verbatim>\<open>MAX_MODEL_LEN\<close> is written only when
  the extra configuration holds a positive integer for it; otherwise it keeps whatever
  the layers below gave it.
\<close>

theorem Create_env_layers:
  assumes "cp_InstanceID params \<noteq> []"
    and "cp_InstanceID params \<notin> existing"
    and "cp_Devices params = dev # devs"
    and "select_sandbox (di_ConfigKey dev) = Inr sandbox"
    and "PrepareEnvironment sandbox (cp_Devices params) = Inr sandboxEnv"
  shows "\<exists>env. Create_env select_sandbox apply_template existing (Some params) = Inr env
     \<and> env ''MODEL_PATH'' = Some ''/mnt/model''
     \<and> env ''MODEL_NAME'' = Some (if cp_Alias params = [] then cp_ModelID params
                                   else cp_Alias params)
     \<and> env ''TENSOR_PARALLEL_SIZE'' =
         Some (if cp_TensorParallel params > 0 then itoa (cp_TensorParallel params)
               else itoa (int (length (cp_Devices params))))
     \<and> env ''SERVER_PORT'' = Some (if cp_Port params > 0 then itoa (cp_Port params) else ''8000'')
     \<and> (\<forall>n. cp_ExtraConfig params ''max_model_len'' = Some (AnyInt n) \<and> n > 0 \<longrightarrow>
           env ''MAX_MODEL_LEN'' = Some (itoa n))
     \<and> ((\<forall>n. cp_ExtraConfig params ''max_model_len'' = Some (AnyInt n) \<longrightarrow> n \<le> 0) \<longrightarrow>
           env ''MAX_MODEL_LEN'' =
             apply_template params (merge_env (cp_Environment params) sandboxEnv) ''MAX_MODEL_LEN'')
     \<and> (\<forall>k. k \<notin> canonical_keys \<longrightarrow>
           env k = apply_template params (merge_env (cp_Environment params) sandboxEnv) k)
     \<and> (\<forall>k v. sandboxEnv k = Some v \<longrightarrow>
           merge_env (cp_Environment params) sandboxEnv k = Some v)
     \<and> (\<forall>k. sandboxEnv k = None \<longrightarrow>
           merge_env (cp_Environment params) sandboxEnv k = cp_Environment params k)"
proof -
  let ?base = "apply_template params (merge_env (cp_Environment params) sandboxEnv)"
  let ?e1 = "?base(''MODEL_PATH'' \<mapsto> ''/mnt/model'')"
  let ?e2 = "?e1(''MODEL_NAME'' \<mapsto> (if cp_Alias params = [] then cp_ModelID params
                                         else cp_Alias params))"
  let ?e3 = "?e2(''TENSOR_PARALLEL_SIZE'' \<mapsto>
                  (if cp_TensorParallel params > 0 then itoa (cp_TensorParallel params)
                   else itoa (int (length (cp_Devices params)))))"
  let ?e4 = "(case cp_ExtraConfig params ''max_model_len'' of
               Some (AnyInt maxLen) \<Rightarrow>
                 if maxLen > 0 then ?e3(''MAX_MODEL_LEN'' \<mapsto> itoa maxLen) else ?e3
             | _ \<Rightarrow> ?e3)"
  let ?e5 = "?e4(''SERVER_PORT'' \<mapsto> (if cp_Port params > 0 then itoa (cp_Port params)
                                            else ''8000''))"
  have res: "Create_env select_sandbox apply_template existing (Some params) = Inr ?e5"
    using assms by (simp add: Create_env_def Let_def split: option.splits go_any.splits)
  have e4_other: "?e4 k = ?e3 k" if "k \<noteq> ''MAX_MODEL_LEN''" for k
    using that by (simp split: option.splits go_any.splits)
  have e4_len: "?e4 ''MAX_MODEL_LEN'' = Some (itoa n)"
    if "cp_ExtraConfig params ''max_model_len'' = Some (AnyInt n)" "n > 0" for n
    using that by simp
  have p1: "?e5 ''MODEL_PATH'' = Some ''/mnt/model''"
    by (simp add: e4_other)
  have p2: "?e5 ''MODEL_NAME'' = Some (if cp_Alias params = [] then cp_ModelID params
                                   else cp_Alias params)"
    by (simp add: e4_other)
  have p3: "?e5 ''TENSOR_PARALLEL_SIZE'' =
         Some (if cp_TensorParallel params > 0 then itoa (cp_TensorParallel params)
               else itoa (int (length (cp_Devices params))))"
    by (simp add: e4_other)
  have p4: "?e5 ''SERVER_PORT'' = Some (if cp_Port params > 0 then itoa (cp_Port params) else ''8000'')"
    by simp
  have p5: "\<forall>n. cp_ExtraConfig params ''max_model_len'' = Some (AnyInt n) \<and> n > 0 \<longrightarrow>
           ?e5 ''MAX_MODEL_LEN'' = Some (itoa n)"
    using e4_len by simp
  have e4_keep: "?e4 ''MAX_MODEL_LEN'' = ?e3 ''MAX_MODEL_LEN''"
    if "\<forall>n. cp_ExtraConfig params ''max_model_len'' = Some (AnyInt n) \<longrightarrow> n \<le> 0"
    using that by (auto split: option.splits go_any.splits)
  have p5': "(\<forall>n. cp_ExtraConfig params ''max_model_len'' = Some (AnyInt n) \<longrightarrow> n \<le> 0) \<longrightarrow>
           ?e5 ''MAX_MODEL_LEN'' = ?base ''MAX_MODEL_LEN''"
  proof
    assume a: "\<forall>n. cp_ExtraConfig params ''max_model_len'' = Some (AnyInt n) \<longrightarrow> n \<le> 0"
    have "?e5 ''MAX_MODEL_LEN'' = ?e4 ''MAX_MODEL_LEN''" by simp
    also have "\<dots> = ?e3 ''MAX_MODEL_LEN''" by (rule e4_keep [OF a])
    also have "\<dots> = ?base ''MAX_MODEL_LEN''" by simp
    finally show "?e5 ''MAX_MODEL_LEN'' = ?base ''MAX_MODEL_LEN''" .
  qed
  have p6: "\<forall>k. k \<notin> canonical_keys \<longrightarrow> ?e5 k = ?base k"
  proof (intro allI impI)
    fix k :: string
    assume "k \<notin> canonical_keys"
    then have k: "k \<noteq> ''MODEL_PATH''" "k \<noteq> ''MODEL_NAME''" "k \<noteq> ''TENSOR_PARALLEL_SIZE''"
      "k \<noteq> ''MAX_MODEL_LEN''" "k \<noteq> ''SERVER_PORT''"
      by (auto simp: canonical_keys_def)
    have "?e5 k = ?e4 k" using k(5) by simp
    also have "\<dots> = ?e3 k" using k(4) by (rule e4_other)
    also have "\<dots> = ?base k" using k(1,2,3) by simp
    finally show "?e5 k = ?base k" .
  qed
  have p7: "\<forall>k v. sandboxEnv k = Some v \<longrightarrow>
           merge_env (cp_Environment params) sandboxEnv k = Some v"
    by (simp add: merge_env_def map_add_Some_iff)
  have p8: "\<forall>k. sandboxEnv k = None \<longrightarrow>
           merge_env (cp_Environment params) sandboxEnv k = cp_Environment params k"
    by (simp add: merge_env_def map_add_def)
  from res p1 p2 p3 p4 p5 p5' p6 p7 p8 show ?thesis by blast
qed

theorem Create_env_layers_witness:
  "env_lookup (Create_env example_select (\<lambda>params env. env) {} (Some example_params))
     ''LOG_LEVEL'' = Some ''info''
   \<and> env_lookup (Create_env example_select (\<lambda>params env. env) {} (Some example_params))
     ''HF_HOME'' = Some ''/cache''
   \<and> env_lookup (Create_env example_select (\<lambda>params env. env) {} (Some example_params))
     ''MODEL_NAME'' = Some ''qwen2-7b''
   \<and> env_lookup (Create_env example_select (\<lambda>params env. env) {} (Some example_params))
     ''TENSOR_PARALLEL_SIZE'' = Some ''1''
   \<and> env_lookup (Create_env example_select (\<lambda>params env. env) {} (Some example_params))
     ''SERVER_PORT'' = Some ''10881''
   \<and> env_lookup (Create_env example_select (\<lambda>params env. env) {} (Some example_params))
     ''MAX_MODEL_LEN'' = None"
proof -
  let ?sb = "[''LOG_LEVEL'' \<mapsto> ''info'', ''ASCEND_VISIBLE_DEVICES'' \<mapsto> ''0'']"
  have h1: "cp_InstanceID example_params \<noteq> []" by (simp add: example_params_def)
  have h2: "cp_InstanceID example_params \<notin> {}" by simp
  have h3: "cp_Devices example_params = example_device # []" by (simp add: example_params_def)
  have h4: "example_select (di_ConfigKey example_device) = Inr example_sandbox"
    by (simp add: example_select_def example_device_def)
  have h5: "PrepareEnvironment example_sandbox (cp_Devices example_params) = Inr ?sb"
    by (simp add: example_sandbox_def)
  from Create_env_layers [where params = example_params and existing = "{}"
      and dev = example_device and devs = "[]" and select_sandbox = example_select
      and sandbox = example_sandbox and sandboxEnv = "?sb"
      and apply_template = "\<lambda>params env. env", OF h1 h2 h3 h4 h5]
  obtain env where
    r: "Create_env example_select (\<lambda>params env. env) {} (Some example_params) = Inr env"
    and name: "env ''MODEL_NAME'' = Some (if cp_Alias example_params = []
                 then cp_ModelID example_params else cp_Alias example_params)"
    and tp: "env ''TENSOR_PARALLEL_SIZE'' =
         Some (if cp_TensorParallel example_params > 0 then itoa (cp_TensorParallel example_params)
               else itoa (int (length (cp_Devices example_params))))"
    and port: "env ''SERVER_PORT'' = Some (if cp_Port example_params > 0
                 then itoa (cp_Port example_params) else ''8000'')"
    and len: "(\<forall>n. cp_ExtraConfig example_params ''max_model_len'' = Some (AnyInt n) \<longrightarrow> n \<le> 0)
           \<longrightarrow> env ''MAX_MODEL_LEN'' =
                 merge_env (cp_Environment example_params) ?sb ''MAX_MODEL_LEN''"
    and other: "\<forall>k. k \<notin> canonical_keys \<longrightarrow>
           env k = merge_env (cp_Environment example_params) ?sb k"
    and sb: "\<forall>k v. ?sb k = Some v \<longrightarrow>
           merge_env (cp_Environment example_params) ?sb k = Some v"
    and usr: "\<forall>k. ?sb k = None \<longrightarrow>
           merge_env (cp_Environment example_params) ?sb k = cp_Environment example_params k"
    by blast
  have "env ''LOG_LEVEL'' = Some ''info''"
    using other sb by (simp add: canonical_keys_def)
  moreover have "env ''HF_HOME'' = Some ''/cache''"
    using other usr by (simp add: canonical_keys_def example_params_def)
  moreover have "env ''MODEL_NAME'' = Some ''qwen2-7b''"
    using name by (simp add: example_params_def)
  moreover have "env ''TENSOR_PARALLEL_SIZE'' = Some ''1''"
    using tp by (simp add: example_params_def itoa_def digits_small digit_char_def)
  moreover have "env ''SERVER_PORT'' = Some ''10881''"
    using port by (simp add: example_params_def itoa_def digits_small digits_large digit_char_def)
  moreover have "env ''MAX_MODEL_LEN'' = None"
    using len usr by (simp add: example_params_def)
  ultimately show ?thesis by (simp add: r env_lookup_def)
qed

section \<open>Properties of the stream adapter\<close>

text \<open>
  C6. The ordering does not hold for every input. After a chunk with a finish reason the
  adapter has written \<open>content_block_stop\<close> for every block, \<open>message_stop\<close> and the
  \<^verbatim>\<open>[DONE]\<close> line, but \<^verbatim>\<open>processChunk\<close> still handles the tool calls of later
  chunks: a further fragment of the current tool call is written as a
  \<open>content_block_delta\<close> on the block that is already stopped, after \<open>message_stop\<close>.
\<close>

theorem Transform_fragment_after_finish:
  "fst (Transform example_unmarshal_chunk (\<lambda>i. ''ffffffffffff'')
          (NewStreamAdapter ''m'' ''0123456789ab'')
          [''data: c1'', ''data: c2'', ''data: c3'', ''data: [DONE]''] None)
     = (\<lparr>sa_requestModel = ''m'', sa_messageID = ''msg_0123456789ab'', sa_blockIndex = 0,
         sa_textBlockOpen = True, sa_textBlockDone = True, sa_toolIndex = Some 0,
         sa_lastBlockIndex = 1, sa_inputTokens = 0, sa_outputTokens = 0, sa_finished = True\<rparr>,
        late_fragment_events)
   \<and> \<not> deltas_bracketed [] late_fragment_events
   \<and> \<not> message_stop_last late_fragment_events"
  by (simp add: Transform_def NewStreamAdapter_def generateMessageID_def HasPrefix_def
      example_unmarshal_chunk_def tool_chunk_def finish_chunk_def processChunk_def
      processToolCalls_def handleFinish_def finalize_def tool_block_indices_def
      mapFinishReason_def late_fragment_events_def message_stop_last_def upto.simps Let_def)

section \<open>Properties of the runtime manager\<close>




lemma select_devices_in_range:
  "\<forall>i \<in> set idxs. i < int (length allDevices) \<Longrightarrow>
   select_devices allDevices idxs = Inr (map (\<lambda>i. to_runtime_device (allDevices ! nat i)) idxs)"
  by (induction idxs) auto

lemma select_devices_out_of_range:
  "\<exists>i \<in> set idxs. int (length allDevices) \<le> i \<Longrightarrow>
   \<exists>i \<in> set idxs. int (length allDevices) \<le> i \<and>
     select_devices allDevices idxs = Inl (DeviceIndexOutOfRange i (length allDevices))"
proof (induction idxs)
  case Nil
  then show ?case by simp
next
  case (Cons idx rest)
  show ?case
  proof (cases "int (length allDevices) \<le> idx")
    case True
    then show ?thesis by auto
  next
    case False
    with Cons.prems have "\<exists>i \<in> set rest. int (length allDevices) \<le> i" by auto
    from Cons.IH [OF this] obtain i where "i \<in> set rest" "int (length allDevices) \<le> i"
      "select_devices allDevices rest = Inl (DeviceIndexOutOfRange i (length allDevices))"
      by blast
    with False show ?thesis by auto
  qed
qed

lemma parse_parts_nonneg:
  "parse_parts TrimSpace parts = Inr idxs \<Longrightarrow> \<forall>i \<in> set idxs. 0 \<le> i"
  by (induction parts arbitrary: idxs)
     (auto simp: Let_def split: if_splits option.splits sum.splits)

lemma parseDeviceList_nonneg:
  "parseDeviceList TrimSpace deviceList = Inr idxs \<Longrightarrow> idxs \<noteq> [] \<and> (\<forall>i \<in> set idxs. 0 \<le> i)"
  by (auto simp: parseDeviceList_def Let_def split: if_splits sum.splits dest: parse_parts_nonneg)

lemma Run_to_devices:
  assumes "find_running (ro_ModelID opts) (list_runtimes (mg_runtimes m) w) = None"
    and "map_of (mg_runtimes m) (ro_BackendType opts @ ''-'' @ ro_DeploymentMode opts) = Some rt"
    and "ro_ModelPath opts \<noteq> []"
    and "getOrCreateAllocator E m = (Inr allocator, m1)"
  shows "Run E m (Some opts) w =
           (fst (run_on_devices E rt allocator opts (ro_ModelID opts @ ''-'' @ itoa (env_now E)) w),
            m1,
            snd (run_on_devices E rt allocator opts (ro_ModelID opts @ ''-'' @ itoa (env_now E)) w))"
  using assms by (simp add: Run_def Manager_List_def Let_def split_beta)

lemma example_now: "itoa 1700000100 = ''1700000100''"
  by (simp add: itoa_def digits_small digits_large digit_char_def)

lemma example_listing:
  "list_runtimes (mg_runtimes example_manager) (example_world\<lparr>w_start_fails := sf, w_remove_fails := rf\<rparr>)
     = [example_running]"
  by (simp add: example_manager_def docker_runtime_def example_world_def)

lemma example_allocator:
  "getOrCreateAllocator example_run_env example_manager =
     (Inr (spec_allocator example_inventory), example_manager)"
  by (simp add: getOrCreateAllocator_def example_manager_def)

lemma example_Run_to_devices:
  "Run example_run_env example_manager (Some (example_opts ''llama3-8b'' deviceList port))
     (example_world\<lparr>w_start_fails := sf, w_remove_fails := rf\<rparr>) =
     (fst (run_on_devices example_run_env (docker_runtime ''vllm-docker'')
             (spec_allocator example_inventory) (example_opts ''llama3-8b'' deviceList port)
             ''llama3-8b-1700000100'' (example_world\<lparr>w_start_fails := sf, w_remove_fails := rf\<rparr>)),
      example_manager,
      snd (run_on_devices example_run_env (docker_runtime ''vllm-docker'')
             (spec_allocator example_inventory) (example_opts ''llama3-8b'' deviceList port)
             ''llama3-8b-1700000100'' (example_world\<lparr>w_start_fails := sf, w_remove_fails := rf\<rparr>)))"
proof -
  let ?opts = "example_opts ''llama3-8b'' deviceList port"
  let ?w = "example_world\<lparr>w_start_fails := sf, w_remove_fails := rf\<rparr>"
  have h1: "find_running (ro_ModelID ?opts) (list_runtimes (mg_runtimes example_manager) ?w) = None"
    by (simp add: example_listing) (simp add: example_opts_def example_running_def)
  have h2: "map_of (mg_runtimes example_manager)
              (ro_BackendType ?opts @ ''-'' @ ro_DeploymentMode ?opts)
            = Some (docker_runtime ''vllm-docker'')"
    by (simp add: example_manager_def example_opts_def)
  have h3: "ro_ModelPath ?opts \<noteq> []" by (simp add: example_opts_def)
  have id: "ro_ModelID ?opts @ ''-'' @ itoa (env_now example_run_env) = ''llama3-8b-1700000100''"
    by (simp add: example_opts_def example_run_env_def example_now)
  from Run_to_devices [OF h1 h2 h3 example_allocator] show ?thesis
    unfolding id .
qed




text \<open>
  C1. An explicit device list is not compared with the devices that live instances hold.
  Device 0 belongs to the running instance of \<^verbatim>\<open>qwen2-7b\<close>; \<^verbatim>\<open>Run\<close> for another
  model with the device list \<^verbatim>\<open>0\<close> does not fail: it creates and starts a second
  instance, and two running containers carry device 0. Only the range of the indices is
  checked (\<open>Run_explicit_device_list\<close> below); the automatic path goes through the
  allocator, which leaves out allocated devices.
\<close>

theorem Run_overlapping_device_list:
  "allocated_indices example_world = [0]
   \<and> fst (Run example_run_env example_manager (Some (example_opts ''llama3-8b'' ''0'' 10882))
            (example_world\<lparr>w_start_fails := False, w_remove_fails := False\<rparr>))
       = Inr \<lparr>ri_ID = ''llama3-8b-1700000100'', ri_ModelID = ''llama3-8b'',
              ri_BackendType = ''vllm'', ri_DeploymentMode = ''docker'',
              ri_State = ''running'', ri_CreatedAt = 1700000100,
              ri_StartedAt = Some 1700000100, ri_Port = 10882, ri_Error = [],
              ri_Config = Some [''device'' \<mapsto> AnyString ''0'']\<rparr>
   \<and> w_containers (snd (snd (Run example_run_env example_manager
            (Some (example_opts ''llama3-8b'' ''0'' 10882))
            (example_world\<lparr>w_start_fails := False, w_remove_fails := False\<rparr>))))
       = [\<lparr>ct_InstanceID = ''qwen2-7b-1700000000'', ct_ModelID = ''qwen2-7b'',
           ct_DeviceIndices = [0], ct_Port = 10881, ct_Running = True\<rparr>,
          \<lparr>ct_InstanceID = ''llama3-8b-1700000100'', ct_ModelID = ''llama3-8b'',
           ct_DeviceIndices = [0], ct_Port = 10882, ct_Running = True\<rparr>]"
proof -
  have parse: "parseDeviceList ascii_TrimSpace ''0'' = Inr [0]"
    by (simp add: parseDeviceList_def ascii_TrimSpace_def ascii_space_def Atoi_def
        digit_value_def Let_def)
  have devs: "obtain_devices example_run_env (spec_allocator example_inventory)
                (example_opts ''llama3-8b'' ''0'' 10882) ''llama3-8b-1700000100''
                (example_world\<lparr>w_start_fails := False, w_remove_fails := False\<rparr>)
              = (Inr [to_runtime_device (example_inventory ! 0)],
                 example_world\<lparr>w_start_fails := False, w_remove_fails := False\<rparr>)"
    by (simp add: obtain_devices_def requested_devices_def example_opts_def example_run_env_def
        parse spec_allocator_def example_inventory_def)
  have a: "allocated_indices example_world = [0]"
    by (simp add: allocated_indices_def example_world_def)
  show ?thesis
    unfolding example_Run_to_devices run_on_devices_def devs
    by (simp add: a)
       (simp add: create_and_start_def new_CreateParams_def docker_runtime_def docker_Create_def
          docker_Start_def example_opts_def example_world_def example_inventory_def
          example_running_def to_runtime_device_def spec_allocator_def StateRunning_def
          StateCreated_def itoa_def digits_small digits_large digit_char_def Let_def)
qed

text \<open>
  What \<^verbatim>\<open>Run\<close> does check on an explicit device list, once it has passed the check
  for a running instance of the model and has its runtime, model path and allocator: a
  list that does not parse (empty, not a number, negative) fails as an invalid device
  list, and a list with an index at or beyond the size of the inventory fails as out of
  range, both without any call to the runtime or the allocator, so nothing is created. A
  list of indices inside the inventory goes to \<^verbatim>\<open>Create\<close> as it is.
\<close>

theorem Run_explicit_device_list:
  assumes "find_running (ro_ModelID opts) (list_runtimes (mg_runtimes m) w) = None"
    and "map_of (mg_runtimes m) (ro_BackendType opts @ ''-'' @ ro_DeploymentMode opts) = Some rt"
    and "ro_ModelPath opts \<noteq> []"
    and "getOrCreateAllocator E m = (Inr allocator, m1)"
    and "requested_devices opts = Some deviceList"
  shows "(parseDeviceList (env_TrimSpace E) deviceList = Inl err \<longrightarrow>
            Run E m (Some opts) w = (Inl (InvalidDeviceList err), m1, w))
       \<and> (parseDeviceList (env_TrimSpace E) deviceList = Inr idxs \<and>
            (\<exists>i \<in> set idxs. int (length (al_GetAllDevices allocator)) \<le> i) \<longrightarrow>
            (\<exists>i \<in> set idxs. int (length (al_GetAllDevices allocator)) \<le> i \<and>
               Run E m (Some opts) w =
                 (Inl (DeviceIndexOutOfRange i (length (al_GetAllDevices allocator))), m1, w)))
       \<and> (parseDeviceList (env_TrimSpace E) deviceList = Inr idxs \<and>
            (\<forall>i \<in> set idxs. i < int (length (al_GetAllDevices allocator))) \<longrightarrow>
            (\<forall>i \<in> set idxs. 0 \<le> i) \<and>
            Run E m (Some opts) w =
              (fst (create_and_start rt allocator opts
                      (ro_ModelID opts @ ''-'' @ itoa (env_now E))
                      (map (\<lambda>i. to_runtime_device (al_GetAllDevices allocator ! nat i)) idxs) w),
               m1,
               snd (create_and_start rt allocator opts
                      (ro_ModelID opts @ ''-'' @ itoa (env_now E))
                      (map (\<lambda>i. to_runtime_device (al_GetAllDevices allocator ! nat i)) idxs) w)))"
proof (intro conjI impI)
  assume "parseDeviceList (env_TrimSpace E) deviceList = Inl err"
  then show "Run E m (Some opts) w = (Inl (InvalidDeviceList err), m1, w)"
    by (simp add: Run_to_devices [OF assms(1-4)] run_on_devices_def obtain_devices_def assms(5))
next
  assume a: "parseDeviceList (env_TrimSpace E) deviceList = Inr idxs \<and>
            (\<exists>i \<in> set idxs. int (length (al_GetAllDevices allocator)) \<le> i)"
  from select_devices_out_of_range [of idxs "al_GetAllDevices allocator"] a
  obtain i where i: "i \<in> set idxs" "int (length (al_GetAllDevices allocator)) \<le> i"
    "select_devices (al_GetAllDevices allocator) idxs =
       Inl (DeviceIndexOutOfRange i (length (al_GetAllDevices allocator)))"
    by blast
  with a have "Run E m (Some opts) w =
      (Inl (DeviceIndexOutOfRange i (length (al_GetAllDevices allocator))), m1, w)"
    by (simp add: Run_to_devices [OF assms(1-4)] run_on_devices_def obtain_devices_def assms(5))
  with i show "\<exists>i \<in> set idxs. int (length (al_GetAllDevices allocator)) \<le> i \<and>
               Run E m (Some opts) w =
                 (Inl (DeviceIndexOutOfRange i (length (al_GetAllDevices allocator))), m1, w)"
    by blast
next
  assume a: "parseDeviceList (env_TrimSpace E) deviceList = Inr idxs \<and>
            (\<forall>i \<in> set idxs. i < int (length (al_GetAllDevices allocator)))"
  then show "\<forall>i \<in> set idxs. 0 \<le> i"
    using parseDeviceList_nonneg by blast
next
  assume a: "parseDeviceList (env_TrimSpace E) deviceList = Inr idxs \<and>
            (\<forall>i \<in> set idxs. i < int (length (al_GetAllDevices allocator)))"
  then have "select_devices (al_GetAllDevices allocator) idxs =
      Inr (map (\<lambda>i. to_runtime_device (al_GetAllDevices allocator ! nat i)) idxs)"
    using select_devices_in_range by blast
  with a show "Run E m (Some opts) w =
              (fst (create_and_start rt allocator opts
                      (ro_ModelID opts @ ''-'' @ itoa (env_now E))
                      (map (\<lambda>i. to_runtime_device (al_GetAllDevices allocator ! nat i)) idxs) w),
               m1,
               snd (create_and_start rt allocator opts
                      (ro_ModelID opts @ ''-'' @ itoa (env_now E))
                      (map (\<lambda>i. to_runtime_device (al_GetAllDevices allocator ! nat i)) idxs) w))"
    by (simp add: Run_to_devices [OF assms(1-4)] run_on_devices_def obtain_devices_def assms(5))
qed

theorem Run_explicit_device_list_witness:
  "fst (Run example_run_env example_manager (Some (example_opts ''llama3-8b'' '' 5, '' 10882))
          example_world) = Inl (DeviceIndexOutOfRange 5 2)
   \<and> snd (snd (Run example_run_env example_manager
          (Some (example_opts ''llama3-8b'' '' 5, '' 10882)) example_world)) = example_world"
proof -
  let ?opts = "example_opts ''llama3-8b'' '' 5, '' 10882"
  have w: "example_world\<lparr>w_start_fails := False, w_remove_fails := False\<rparr> = example_world"
    by (simp add: example_world_def)
  have h1: "find_running (ro_ModelID ?opts)
              (list_runtimes (mg_runtimes example_manager) example_world) = None"
    using example_listing [of False False] unfolding w
    by (simp add: example_opts_def example_running_def)
  have h2: "map_of (mg_runtimes example_manager)
              (ro_BackendType ?opts @ ''-'' @ ro_DeploymentMode ?opts)
            = Some (docker_runtime ''vllm-docker'')"
    by (simp add: example_manager_def example_opts_def)
  have h3: "ro_ModelPath ?opts \<noteq> []" by (simp add: example_opts_def)
  have h5: "requested_devices ?opts = Some '' 5, ''"
    by (simp add: requested_devices_def example_opts_def)
  have parse: "parseDeviceList (env_TrimSpace example_run_env) '' 5, '' = Inr [5]"
    by (simp add: example_run_env_def parseDeviceList_def ascii_TrimSpace_def ascii_space_def
        Atoi_def digit_value_def Let_def)
  have len: "length (al_GetAllDevices (spec_allocator example_inventory)) = 2"
    by (simp add: spec_allocator_def example_inventory_def)
  from Run_explicit_device_list [OF h1 h2 h3 example_allocator h5, where idxs = "[5]"]
    parse len
  have "Run example_run_env example_manager (Some ?opts) example_world
          = (Inl (DeviceIndexOutOfRange 5 2), example_manager, example_world)"
    by simp
  then show ?thesis by simp
qed






end
